(* ===== verification/Prelude.thy ===== *)
theory Prelude
  imports Main
begin

text \<open>
  Shared vocabulary of the development: the Python exceptions that the client and the
  libraries it calls can raise, the result type of a Python call that may raise, the
  few \<open>str\<close> methods the code and the \<open>requests\<close> library rely on
  (\<open>str.startswith\<close>, \<open>str.lower\<close>, \<open>str.lstrip\<close>), and the generic lemmas on
  them that the component theories share.  The collection \<open>py_str_simps\<close> gathers the
  evaluation rules of the string helpers, so that component proofs can say
  \<open>simp add: py_str_simps\<close>.
\<close>

named_theorems py_str_simps "evaluation rules of the Python string helpers"
named_theorems client_unfold "unfolding rules of the client's methods"

section \<open>Python exceptions\<close>

text \<open>
  One constructor per exception class that can reach the caller of \<open>YocoClient\<close>:
  \<^item> \<open>AttributeError a\<close>: reading an instance attribute \<open>a\<close> that was never set;
  \<^item> \<open>KeyError k\<close>: \<open>d[k]\<close> on a \<open>dict\<close> without key \<open>k\<close>;
  \<^item> \<open>TypeError\<close>: \<open>v[k]\<close> with a string key on a value that is not a \<open>dict\<close>;
  \<^item> \<open>JSONDecodeError\<close>: \<open>Response.json()\<close> on a body that is not JSON;
  \<^item> \<open>MissingSchema u\<close>, \<open>InvalidSchema u\<close>, \<open>InvalidHeader h\<close>: the request
    preparation errors of \<open>requests\<close>;
  \<^item> \<open>TransportError m\<close>: every failure of the network or the server
    (DNS, refused connection, timeout, TLS), which the client never catches.
\<close>

datatype py_error =
    AttributeError string
  | KeyError string
  | TypeError
  | JSONDecodeError
  | MissingSchema string
  | InvalidSchema string
  | InvalidHeader string
  | TransportError string

type_synonym 'a py_result = "py_error + 'a"

section \<open>String helpers\<close>

text \<open>\<open>s.startswith(p)\<close>.\<close>

fun startswith :: "string \<Rightarrow> string \<Rightarrow> bool" where
  "startswith s [] = True"
| "startswith [] (p # ps) = False"
| "startswith (c # cs) (p # ps) = (c = p \<and> startswith cs ps)"

text \<open>
  \<open>str.lower\<close> on the code points 0--255: the ASCII capitals and the Latin-1 capitals
  0xc0--0xde but the multiplication sign 0xd7 move up by 32; other characters are left
  alone.
\<close>

definition lower_char :: "char \<Rightarrow> char" where
  "lower_char c =
     (let n = (of_char c :: nat) in
      if (65 \<le> n \<and> n \<le> 90) \<or> (192 \<le> n \<and> n \<le> 222 \<and> n \<noteq> 215) then char_of (n + 32) else c)"

definition lower :: "string \<Rightarrow> string" where
  "lower s = map lower_char s"

text \<open>
  \<open>str.isspace\<close>, and the class \<open>\s\<close> of a \<open>str\<close> pattern in \<open>re\<close>, on one
  character of the code points 0--255: tab, line feed, vertical tab, form feed,
  carriage return, the four information separators 0x1c--0x1f, space, next line (0x85)
  and no-break space (0xa0).
\<close>

definition py_isspace :: "char \<Rightarrow> bool" where
  "py_isspace c =
     (let n = (of_char c :: nat) in (9 \<le> n \<and> n \<le> 13) \<or> (28 \<le> n \<and> n \<le> 32) \<or> n = 133 \<or> n = 160)"

text \<open>\<open>s.lstrip()\<close>: drop the leading white space.\<close>

definition lstrip :: "string \<Rightarrow> string" where
  "lstrip s = dropWhile py_isspace s"

text \<open>\<open>sep.join(xs)\<close>.\<close>

fun py_join :: "string \<Rightarrow> string list \<Rightarrow> string" where
  "py_join sep [] = []"
| "py_join sep [x] = x"
| "py_join sep (x # y # ys) = x @ sep @ py_join sep (y # ys)"

section \<open>Generic lemmas\<close>

lemma startswith_take [py_str_simps]:
  "startswith s p \<longleftrightarrow> take (length p) s = p"
  by (induction s p rule: startswith.induct) auto

lemma startswith_append [simp]: "startswith (p @ s) p"
  by (simp add: startswith_take)

lemma startswith_Cons_iff [py_str_simps]:
  "startswith (c # cs) (p # ps) \<longleftrightarrow> c = p \<and> startswith cs ps"
  by simp

lemma startswith_trans:
  "startswith s p \<Longrightarrow> startswith p q \<Longrightarrow> startswith s q"
  by (simp add: startswith_take) (metis length_take take_take)

lemma lower_Nil [py_str_simps]: "lower [] = []"
  and lower_Cons [py_str_simps]: "lower (c # cs) = lower_char c # lower cs"
  by (simp_all add: lower_def)

lemma lower_append [py_str_simps]: "lower (xs @ ys) = lower xs @ lower ys"
  by (simp add: lower_def)

lemma lstrip_Cons [py_str_simps]:
  "lstrip (c # cs) = (if py_isspace c then lstrip cs else c # cs)"
  by (simp add: lstrip_def)

lemma lstrip_Nil [py_str_simps]: "lstrip [] = []"
  by (simp add: lstrip_def)

lemma find_not_list_all [simp]: "list_all P xs \<Longrightarrow> find (\<lambda>x. \<not> P x) xs = None"
  by (induction xs) auto

lemma case_sum_Inl_iff [simp]:
  "(case x of Inl e \<Rightarrow> Inl e | Inr v \<Rightarrow> f v) = Inr r \<longleftrightarrow> (\<exists>v. x = Inr v \<and> f v = Inr r)"
  by (cases x) auto

lemma distinct_nth_notin_take: "distinct xs \<Longrightarrow> m < length xs \<Longrightarrow> xs ! m \<notin> set (take m xs)"
  by (auto simp: in_set_conv_nth nth_eq_iff_index_eq)

end
