(* ===== verification/Json.thy ===== *)
theory Json
  imports Prelude
begin

text \<open>
  JSON documents as the client sees them.  The client builds request bodies as Python
  \<open>dict\<close> literals (\<open>client.py\<close> lines 38--42 and 61--63), and reads the field
  \<open>id\<close> of the decoded response (lines 47 and 68) with \<open>json_response['id']\<close>.
  \<open>pyjson\<close> is the abstract syntax of a JSON document, with each object's members
  kept in document order.  \<open>py_getitem\<close> is Python's \<open>v[k]\<close> on the value that
  \<open>json.loads\<close> makes of it: the object becomes a \<open>dict\<close>, and when a key occurs
  twice the later member wins.  Any other JSON value raises \<open>TypeError\<close>.
\<close>

section \<open>Values\<close>

datatype pyjson =
    JNone
  | JBool bool
  | JInt int
  | JStr string
  | JList "pyjson list"
  | JDict "(string \<times> pyjson) list"

text \<open>
  A well-formed document has distinct keys in every object, at every depth.  The dicts
  that the client builds are well formed, and so is every dict that Python encodes.
\<close>

fun json_wf :: "pyjson \<Rightarrow> bool" where
  "json_wf (JList xs) = list_all json_wf xs"
| "json_wf (JDict kvs) = (distinct (map fst kvs) \<and> list_all (\<lambda>kv. json_wf (snd kv)) kvs)"
| "json_wf _ = True"

section \<open>Subscription \<open>v[k]\<close> with a string key\<close>

fun py_getitem :: "pyjson \<Rightarrow> string \<Rightarrow> pyjson py_result" where
  "py_getitem (JDict kvs) k =
     (case map_of (rev kvs) k of None \<Rightarrow> Inl (KeyError k) | Some v \<Rightarrow> Inr v)"
| "py_getitem (JList _) k = Inl TypeError"
| "py_getitem (JStr _) k = Inl TypeError"
| "py_getitem (JInt _) k = Inl TypeError"
| "py_getitem (JBool _) k = Inl TypeError"
| "py_getitem JNone k = Inl TypeError"

definition is_dict :: "pyjson \<Rightarrow> bool" where
  "is_dict v = (case v of JDict _ \<Rightarrow> True | _ \<Rightarrow> False)"

section \<open>Lemmas\<close>

lemma map_of_rev_distinct:
  "distinct (map fst kvs) \<Longrightarrow> map_of (rev kvs) = map_of kvs"
proof (induction kvs)
  case Nil
  then show ?case by simp
next
  case (Cons kv kvs)
  then have "fst kv \<notin> dom (map_of kvs)"
    by (auto simp: dom_map_of_conv_image_fst)
  with Cons show ?case
    by (cases kv) (simp add: map_add_comm)
qed

lemma py_getitem_Inr_iff:
  "py_getitem v k = Inr x \<longleftrightarrow> (\<exists>kvs. v = JDict kvs \<and> map_of (rev kvs) k = Some x)"
  by (cases v) (auto split: option.splits)

lemma py_getitem_KeyError_iff:
  "py_getitem v k = Inl (KeyError k') \<longleftrightarrow>
     (\<exists>kvs. v = JDict kvs \<and> k \<notin> set (map fst kvs) \<and> k' = k)"
  by (cases v) (force simp: map_of_eq_None_iff dest: map_of_SomeD split: option.splits)+

lemma py_getitem_not_dict:
  "\<not> is_dict v \<Longrightarrow> py_getitem v k = Inl TypeError"
  by (cases v) (auto simp: is_dict_def)

lemma py_getitem_wf:
  "distinct (map fst kvs) \<Longrightarrow>
     py_getitem (JDict kvs) k = (case map_of kvs k of None \<Rightarrow> Inl (KeyError k) | Some v \<Rightarrow> Inr v)"
  by (simp add: map_of_rev_distinct)

lemma py_getitem_errors:
  "py_getitem v k = Inl e \<Longrightarrow> e = TypeError \<or> e = KeyError k"
  by (cases v) (auto split: option.splits)

lemmas py_getitem_simps = py_getitem_Inr_iff py_getitem_KeyError_iff py_getitem_wf

end
