(* ===== verification/JsonText.thy ===== *)
theory JsonText
  imports Json
begin

text \<open>
  JSON text, the form in which request bodies travel.  \<open>requests.post(url, json=body)\<close>
  (\<open>client.py\<close> lines 43 and 64) serialises the body with
  \<open>json.dumps(body, allow_nan=False)\<close>: separators \<open>", "\<close> and \<open>": "\<close>, keys
  in insertion order, and \<open>ensure_ascii\<close>, which writes every character outside
  \<open>0x20\<close>--\<open>0x7e\<close> as an escape.  \<open>dumps\<close> models that encoder; \<open>loads\<close>
  models \<open>json.loads\<close>, the decoder on the other side of the wire.

  \<open>loads\<close> follows the scanner of \<open>json.decoder\<close>: white space is space, tab,
  line feed and carriage return; strings reject raw control characters and unknown
  escapes; numbers follow \<open>-?(0|[1-9][0-9]*)\<close>; an array or object rejects a
  trailing comma; text after the document other than white space is an error.  It is a
  total function with a fuel argument bounded by the length of the text.  Its result
  \<open>None\<close> stands for \<open>JSONDecodeError\<close>, and also for the documents that
  \<open>pyjson\<close> cannot hold: numbers with a fraction or an exponent, \<open>NaN\<close> and
  \<open>Infinity\<close>, and \<open>\\u\<close> escapes of code points above 255 (characters
  are the code points 0--255 in this model).

  The lemmas show that \<open>loads\<close> inverts \<open>dumps\<close> on every value, and that the fuel
  of \<open>loads\<close> never runs out.
\<close>

section \<open>Numbers\<close>

text \<open>\<open>int.__repr__\<close> in decimal, and the value of a run of decimal digits.\<close>

definition is_digit :: "char \<Rightarrow> bool" where
  "is_digit c = (48 \<le> (of_char c :: nat) \<and> (of_char c :: nat) \<le> 57)"

definition digit_char :: "nat \<Rightarrow> char" where
  "digit_char d = char_of (48 + d)"

fun nat_str :: "nat \<Rightarrow> string" where
  "nat_str n = (if n < 10 then [digit_char n] else nat_str (n div 10) @ [digit_char (n mod 10)])"

definition int_str :: "int \<Rightarrow> string" where
  "int_str i = (if i < 0 then CHR ''-'' # nat_str (nat (- i)) else nat_str (nat i))"

definition digits_val :: "string \<Rightarrow> nat" where
  "digits_val ds = foldl (\<lambda>a d. 10 * a + (of_char d - 48)) 0 ds"

section \<open>Strings\<close>

definition hex_digit :: "nat \<Rightarrow> char" where
  "hex_digit n = (if n < 10 then char_of (48 + n) else char_of (87 + n))"

text \<open>
  One character of \<open>json.dumps\<close> with \<open>ensure_ascii\<close>
  (\<open>c_encode_basestring_ascii\<close>): quote and backslash are escaped, the five
  control characters with a short escape use it, and the others outside
  \<open>0x20\<close>--\<open>0x7e\<close> become \<open>\\u00XX\<close> with lower-case hex digits.
\<close>

definition esc_char :: "char \<Rightarrow> string" where
  "esc_char c =
     (if c = CHR 0x22 then [CHR 0x5C, CHR 0x22]
      else if c = CHR 0x5C then [CHR 0x5C, CHR 0x5C]
      else if c = CHR 0x0A then [CHR 0x5C, CHR ''n'']
      else if c = CHR 0x0D then [CHR 0x5C, CHR ''r'']
      else if c = CHR 0x09 then [CHR 0x5C, CHR ''t'']
      else if c = CHR 0x08 then [CHR 0x5C, CHR ''b'']
      else if c = CHR 0x0C then [CHR 0x5C, CHR ''f'']
      else if (of_char c :: nat) < 32 \<or> 126 < (of_char c :: nat)
        then [CHR 0x5C, CHR ''u'', CHR ''0'', CHR ''0'',
              hex_digit (of_char c div 16), hex_digit (of_char c mod 16)]
      else [c])"

definition dumps_str :: "string \<Rightarrow> string" where
  "dumps_str s = CHR 0x22 # concat (map esc_char s) @ [CHR 0x22]"

text \<open>
  The string scanner of \<open>json.decoder\<close> (\<open>scanstring\<close>): it starts after the
  opening quote and returns the decoded string and the text after the closing quote.
\<close>

definition hex_val :: "char \<Rightarrow> nat option" where
  "hex_val c =
     (let n = (of_char c :: nat) in
      if 48 \<le> n \<and> n \<le> 57 then Some (n - 48)
      else if 97 \<le> n \<and> n \<le> 102 then Some (n - 87)
      else if 65 \<le> n \<and> n \<le> 70 then Some (n - 55)
      else None)"

definition hex4 :: "char \<Rightarrow> char \<Rightarrow> char \<Rightarrow> char \<Rightarrow> nat option" where
  "hex4 a b c d =
     (case (hex_val a, hex_val b, hex_val c, hex_val d) of
        (Some w, Some x, Some y, Some z) \<Rightarrow> Some (((w * 16 + x) * 16 + y) * 16 + z)
      | _ \<Rightarrow> None)"

definition unesc :: "char \<Rightarrow> char option" where
  "unesc e =
     (if e = CHR 0x22 then Some (CHR 0x22) else if e = CHR 0x5C then Some (CHR 0x5C)
      else if e = CHR ''/'' then Some (CHR ''/'') else if e = CHR ''b'' then Some (CHR 0x08)
      else if e = CHR ''f'' then Some (CHR 0x0C) else if e = CHR ''n'' then Some (CHR 0x0A)
      else if e = CHR ''r'' then Some (CHR 0x0D) else if e = CHR ''t'' then Some (CHR 0x09)
      else None)"

fun parse_chars :: "string \<Rightarrow> (string \<times> string) option" where
  "parse_chars [] = None"
| "parse_chars (c # cs) =
     (if c = CHR 0x22 then Some ([], cs)
      else if c = CHR 0x5C then
        (case cs of
           [] \<Rightarrow> None
         | e # cs' \<Rightarrow>
             if e = CHR ''u'' then
               (case cs' of
                  a # b # d # f # r \<Rightarrow>
                    (case hex4 a b d f of
                       Some n \<Rightarrow>
                         if n < 256 then map_option (\<lambda>(s, r'). (char_of n # s, r')) (parse_chars r)
                         else None
                     | None \<Rightarrow> None)
                | _ \<Rightarrow> None)
             else
               (case unesc e of
                  Some x \<Rightarrow> map_option (\<lambda>(s, r'). (x # s, r')) (parse_chars cs')
                | None \<Rightarrow> None))
      else if (of_char c :: nat) < 32 then None
      else map_option (\<lambda>(s, r'). (c # s, r')) (parse_chars cs))"

section \<open>Values\<close>

text \<open>\<open>json.dumps\<close> with the separators \<open>", "\<close> and \<open>": "\<close>.\<close>

fun dumps :: "pyjson \<Rightarrow> string" where
  "dumps JNone = ''null''"
| "dumps (JBool b) = (if b then ''true'' else ''false'')"
| "dumps (JInt i) = int_str i"
| "dumps (JStr s) = dumps_str s"
| "dumps (JList xs) = ''['' @ py_join '', '' (map dumps xs) @ '']''"
| "dumps (JDict kvs) =
     ''{'' @ py_join '', '' (map (\<lambda>(k, v). dumps_str k @ '': '' @ dumps v) kvs) @ ''}''"

definition dumps_member :: "string \<times> pyjson \<Rightarrow> string" where
  "dumps_member kv = dumps_str (fst kv) @ '': '' @ dumps (snd kv)"

text \<open>JSON white space, as \<open>json.decoder.WHITESPACE\<close>.\<close>

definition is_ws :: "char \<Rightarrow> bool" where
  "is_ws c = (c = CHR '' '' \<or> c = CHR 0x09 \<or> c = CHR 0x0A \<or> c = CHR 0x0D)"

definition skip_ws :: "string \<Rightarrow> string" where
  "skip_ws s = dropWhile is_ws s"

text \<open>
  \<open>NUMBER_RE\<close> of \<open>json.scanner\<close>, restricted to integers: a following
  \<open>.\<close>, \<open>e\<close> or \<open>E\<close> makes the number a float or an error, which the model
  does not hold (\<open>None\<close>).
\<close>

definition int_part :: "string \<Rightarrow> string" where
  "int_part s = (case s of c # r \<Rightarrow> if c = CHR ''0'' then [c] else takeWhile is_digit s | [] \<Rightarrow> [])"

definition parse_int :: "string \<Rightarrow> (int \<times> string) option" where
  "parse_int s =
     (let (neg, s1) = (case s of c # r \<Rightarrow> if c = CHR ''-'' then (True, r) else (False, s) | [] \<Rightarrow> (False, s));
          ds = int_part s1;
          r = drop (length ds) s1
      in if ds = [] then None
         else if r \<noteq> [] \<and> hd r \<in> {CHR ''.'', CHR ''e'', CHR ''E''} then None
         else Some (if neg then - int (digits_val ds) else int (digits_val ds), r))"

text \<open>
  \<open>scan_once\<close>, \<open>JSONArray\<close> and \<open>JSONObject\<close> of \<open>json.decoder\<close>, with
  fuel: a value skips the white space in front of it; the elements of an array and
  the members of an object are separated by commas and closed by \<open>]\<close> or \<open>}\<close>.
\<close>

fun parse_value :: "nat \<Rightarrow> string \<Rightarrow> (pyjson \<times> string) option"
and parse_elems :: "nat \<Rightarrow> string \<Rightarrow> (pyjson list \<times> string) option"
and parse_members :: "nat \<Rightarrow> string \<Rightarrow> ((string \<times> pyjson) list \<times> string) option" where
  "parse_value 0 s = None"
| "parse_value (Suc n) s =
     (case skip_ws s of
        [] \<Rightarrow> None
      | c # cs \<Rightarrow>
          if c = CHR 0x22 then map_option (\<lambda>(x, r). (JStr x, r)) (parse_chars cs)
          else if c = CHR ''['' then
            (case skip_ws cs of
               d # r \<Rightarrow> if d = CHR '']'' then Some (JList [], r)
                        else map_option (\<lambda>(xs, r). (JList xs, r)) (parse_elems n cs)
             | [] \<Rightarrow> None)
          else if c = CHR ''{'' then
            (case skip_ws cs of
               d # r \<Rightarrow> if d = CHR ''}'' then Some (JDict [], r)
                        else map_option (\<lambda>(kvs, r). (JDict kvs, r)) (parse_members n cs)
             | [] \<Rightarrow> None)
          else if startswith (c # cs) ''null'' then Some (JNone, drop 4 (c # cs))
          else if startswith (c # cs) ''true'' then Some (JBool True, drop 4 (c # cs))
          else if startswith (c # cs) ''false'' then Some (JBool False, drop 5 (c # cs))
          else map_option (\<lambda>(i, r). (JInt i, r)) (parse_int (c # cs)))"
| "parse_elems 0 s = None"
| "parse_elems (Suc n) s =
     (case parse_value (Suc n) s of
        None \<Rightarrow> None
      | Some (v, r) \<Rightarrow>
          (case skip_ws r of
             d # r' \<Rightarrow>
               if d = CHR '','' then map_option (\<lambda>(vs, r''). (v # vs, r'')) (parse_elems n r')
               else if d = CHR '']'' then Some ([v], r')
               else None
           | [] \<Rightarrow> None))"
| "parse_members 0 s = None"
| "parse_members (Suc n) s =
     (case skip_ws s of
        d # cs \<Rightarrow>
          if d \<noteq> CHR 0x22 then None
          else
            (case parse_chars cs of
               None \<Rightarrow> None
             | Some (k, r) \<Rightarrow>
                 (case skip_ws r of
                    e # r1 \<Rightarrow>
                      if e \<noteq> CHR '':'' then None
                      else
                        (case parse_value (Suc n) r1 of
                           None \<Rightarrow> None
                         | Some (v, r2) \<Rightarrow>
                             (case skip_ws r2 of
                                f # r3 \<Rightarrow>
                                  if f = CHR '','' then
                                    map_option (\<lambda>(kvs, r4). ((k, v) # kvs, r4)) (parse_members n r3)
                                  else if f = CHR ''}'' then Some ([(k, v)], r3)
                                  else None
                              | [] \<Rightarrow> None))
                  | [] \<Rightarrow> None))
      | [] \<Rightarrow> None)"

text \<open>\<open>json.loads(s)\<close>: one value, surrounded by white space only.\<close>

definition loads :: "string \<Rightarrow> pyjson option" where
  "loads s =
     (case parse_value (Suc (length s)) s of
        Some (v, r) \<Rightarrow> if skip_ws r = [] then Some v else None
      | None \<Rightarrow> None)"

text \<open>
  What may follow an encoded value inside an encoded document, and the characters
  that start an encoded value.
\<close>

definition json_stop :: "string \<Rightarrow> bool" where
  "json_stop r = (case r of [] \<Rightarrow> True | c # _ \<Rightarrow> c = CHR '','' \<or> c = CHR '']'' \<or> c = CHR ''}'')"

definition value_start :: "char \<Rightarrow> bool" where
  "value_start c = (c = CHR 0x22 \<or> c = CHR ''['' \<or> c = CHR ''{'' \<or> c = CHR ''n'' \<or>
     c = CHR ''t'' \<or> c = CHR ''f'' \<or> c = CHR ''-'' \<or> is_digit c)"

section \<open>Lemmas: encoding and decoding\<close>

declare nat_str.simps [simp del]

lemma digit_char_lt: "d < 10 \<Longrightarrow> of_char (digit_char d) = 48 + d"
  by (simp add: digit_char_def)

lemma is_digit_digit_char [simp]: "d < 10 \<Longrightarrow> is_digit (digit_char d)"
  by (simp add: is_digit_def digit_char_lt)

lemma nat_str_digits: "list_all is_digit (nat_str n)"
proof (induction n rule: nat_str.induct)
  case (1 n)
  then show ?case by (subst nat_str.simps) simp
qed

lemma nat_str_ne [simp]: "nat_str n \<noteq> []"
  by (subst nat_str.simps) simp

lemma digits_val_append_digit:
  "d < 10 \<Longrightarrow> digits_val (ds @ [digit_char d]) = 10 * digits_val ds + d"
  by (simp add: digits_val_def digit_char_lt)

lemma digits_val_nat_str [simp]: "digits_val (nat_str n) = n"
proof (induction n rule: nat_str.induct)
  case (1 n)
  show ?case
  proof (cases "n < 10")
    case True
    then show ?thesis
      using digits_val_append_digit [of n "[]"] by (subst nat_str.simps) (simp add: digits_val_def)
  next
    case False
    with "1" have "digits_val (nat_str (n div 10)) = n div 10" by simp
    with False show ?thesis
      by (subst nat_str.simps) (simp add: digits_val_append_digit)
  qed
qed

lemma nat_str_hd: "hd (nat_str n) = CHR ''0'' \<Longrightarrow> n = 0"
proof (induction n rule: nat_str.induct)
  case (1 n)
  show ?case
  proof (cases "n < 10")
    case True
    with "1.prems" have "digit_char n = CHR ''0''"
      by (subst (asm) nat_str.simps) simp
    then have "(of_char (digit_char n) :: nat) = of_char (CHR ''0'')" by simp
    with True show ?thesis by (simp add: digit_char_lt)
  next
    case False
    with "1.prems" have "hd (nat_str (n div 10)) = CHR ''0''"
      by (subst (asm) nat_str.simps) simp
    with "1.IH" False have "n div 10 = 0" by simp
    with False show ?thesis by simp
  qed
qed

lemma hex_val_hex_digit [simp]: "d < 16 \<Longrightarrow> hex_val (hex_digit d) = Some d"
  by (auto simp: hex_val_def hex_digit_def Let_def)

lemma hex4_esc:
  "hex4 (CHR ''0'') (CHR ''0'') (hex_digit (n div 16)) (hex_digit (n mod 16)) = Some n"
  if "n < 256" for n :: nat
proof -
  have "n div 16 < 16" using that by simp
  moreover have "hex_val (CHR ''0'') = Some 0" by (simp add: hex_val_def)
  ultimately show ?thesis by (simp add: hex4_def)
qed

lemma parse_chars_esc:
  "parse_chars (esc_char c @ rest) = map_option (\<lambda>(s, r'). (c # s, r')) (parse_chars rest)"
proof -
  consider "c = CHR 0x22" | "c = CHR 0x5C" | "c = CHR 0x0A" | "c = CHR 0x0D" | "c = CHR 0x09"
    | "c = CHR 0x08" | "c = CHR 0x0C"
    | "c \<notin> {CHR 0x22, CHR 0x5C, CHR 0x0A, CHR 0x0D, CHR 0x09, CHR 0x08, CHR 0x0C}"
    by blast
  then show ?thesis
  proof cases
    case 8
    show ?thesis
    proof (cases "(of_char c :: nat) < 32 \<or> 126 < (of_char c :: nat)")
      case True
      have "hex4 (CHR ''0'') (CHR ''0'') (hex_digit (of_char c div 16)) (hex_digit (of_char c mod 16))
              = Some (of_char c)"
        by (rule hex4_esc) simp
      with 8 True show ?thesis by (simp add: esc_char_def)
    next
      case False
      with 8 show ?thesis by (simp add: esc_char_def)
    qed
  qed (simp_all add: esc_char_def unesc_def)
qed

lemma skip_ws_Cons [simp]: "skip_ws (c # s) = (if is_ws c then skip_ws s else c # s)"
  by (simp add: skip_ws_def)

lemma skip_ws_Nil [simp]: "skip_ws [] = []"
  by (simp add: skip_ws_def)

lemma json_stop_digit: "json_stop r \<Longrightarrow> r \<noteq> [] \<Longrightarrow> \<not> is_digit (hd r)"
  by (auto simp: json_stop_def is_digit_def split: list.splits)

lemma digit_char_0: "digit_char 0 = CHR ''0''"
  unfolding digit_char_def by code_simp

lemma int_part_nat_str:
  assumes "json_stop r" shows "int_part (nat_str m @ r) = nat_str m"
proof (cases "hd (nat_str m) = CHR ''0''")
  case True
  then have "m = 0" by (rule nat_str_hd)
  then show ?thesis by (simp add: int_part_def nat_str.simps digit_char_0)
next
  case False
  obtain c cs where m: "nat_str m = c # cs" by (cases "nat_str m") auto
  have "takeWhile is_digit r = []"
    using json_stop_digit [OF assms] by (cases r) auto
  then have "takeWhile is_digit (nat_str m @ r) = nat_str m"
    using nat_str_digits [of m] by (simp add: takeWhile_append2 list_all_iff)
  with False m show ?thesis by (simp add: int_part_def)
qed

lemma parse_int_int_str:
  assumes "json_stop r" shows "parse_int (int_str i @ r) = Some (i, r)"
proof -
  have stop: "\<not> (r \<noteq> [] \<and> hd r \<in> {CHR ''.'', CHR ''e'', CHR ''E''})"
    using assms by (auto simp: json_stop_def split: list.splits)
  obtain c cs where m: "nat_str (nat \<bar>i\<bar>) = c # cs" by (cases "nat_str (nat \<bar>i\<bar>)") auto
  have "c \<noteq> CHR ''-''"
    using nat_str_digits [of "nat \<bar>i\<bar>"] m by (auto simp: is_digit_def)
  moreover have "int (digits_val (c # cs)) = \<bar>i\<bar>"
    by (metis digits_val_nat_str m int_nat_eq abs_ge_zero)
  ultimately show ?thesis
    using int_part_nat_str [OF assms, of "nat \<bar>i\<bar>"] stop m
    by (auto simp: parse_int_def int_str_def)
qed

lemma parse_chars_dumps_str:
  "parse_chars (concat (map esc_char s) @ CHR 0x22 # r) = Some (s, r)"
  by (induction s) (simp_all add: parse_chars_esc)

lemma dumps_str_Cons: "dumps_str s = CHR 0x22 # concat (map esc_char s) @ [CHR 0x22]"
  by (simp add: dumps_str_def)

lemma int_str_hd: "\<exists>c r. int_str i = c # r \<and> (c = CHR ''-'' \<or> is_digit c)"
proof -
  obtain c r where "nat_str (nat \<bar>i\<bar>) = c # r" by (cases "nat_str (nat \<bar>i\<bar>)") auto
  with nat_str_digits [of "nat \<bar>i\<bar>"] show ?thesis
    by (auto simp: int_str_def)
qed

lemma dumps_hd: "\<exists>c r. dumps v = c # r \<and> value_start c"
proof (cases v)
  case (JInt i)
  then show ?thesis using int_str_hd [of i] by (auto simp: value_start_def)
qed (auto simp: value_start_def dumps_str_def)

lemma value_start_not_ws: "value_start c \<Longrightarrow> \<not> is_ws c"
  and value_start_not_close: "value_start c \<Longrightarrow> c \<noteq> CHR '']'' \<and> c \<noteq> CHR ''}''"
  by (auto simp: value_start_def is_ws_def is_digit_def)

lemma parse_value_space [simp]: "parse_value n (CHR '' '' # s) = parse_value n s"
  by (cases n) (simp_all add: is_ws_def)

lemma parse_elems_space [simp]: "parse_elems n (CHR '' '' # s) = parse_elems n s"
  by (cases n) simp_all

lemma parse_members_space [simp]: "parse_members n (CHR '' '' # s) = parse_members n s"
  by (cases n) (simp_all add: is_ws_def)

lemma py_join_Cons: "\<exists>t. py_join sep (x # xs) = x @ t"
  by (cases xs) auto

lemma json_stop_simps [simp]:
  "json_stop []" "json_stop (CHR '','' # r)" "json_stop (CHR '']'' # r)" "json_stop (CHR ''}'' # r)"
  by (simp_all add: json_stop_def)

lemma is_ws_punct [simp]:
  "\<not> is_ws CHR '','' " "\<not> is_ws CHR '']''" "\<not> is_ws CHR ''}''" "\<not> is_ws CHR '':''"
  "\<not> is_ws CHR 0x22" "\<not> is_ws CHR ''[''" "\<not> is_ws CHR ''{''" "is_ws CHR '' ''"
  by (simp_all add: is_ws_def)

lemma parse_elems_dumps:
  assumes "\<And>x n r. x \<in> set xs \<Longrightarrow> size x < n \<Longrightarrow> json_stop r \<Longrightarrow>
             parse_value n (dumps x @ r) = Some (x, r)"
    and "xs \<noteq> []" and "size_list size xs < n"
  shows "parse_elems n (py_join '', '' (map dumps xs) @ CHR '']'' # r) = Some (xs, r)"
  using assms
proof (induction xs arbitrary: n)
  case Nil
  then show ?case by simp
next
  case (Cons x xs)
  from Cons.prems(3) obtain m where n: "n = Suc m" and x: "size x < Suc m"
    and sz: "size_list size xs < m"
    by (cases n) auto
  show ?case
  proof (cases xs)
    case Nil
    have "parse_value (Suc m) (dumps x @ CHR '']'' # r) = Some (x, CHR '']'' # r)"
      using x by (intro Cons.prems(1)) simp_all
    then show ?thesis using n Nil by (simp del: parse_value.simps)
  next
    case (Cons y ys)
    let ?t = "py_join '', '' (map dumps xs) @ CHR '']'' # r"
    have v: "parse_value (Suc m) (dumps x @ CHR '','' # CHR '' '' # ?t) =
               Some (x, CHR '','' # CHR '' '' # ?t)"
      using x by (intro Cons.prems(1)) simp_all
    have e: "parse_elems m ?t = Some (xs, r)"
      using Cons.prems(1) sz \<open>xs = y # ys\<close> by (intro Cons.IH) auto
    show ?thesis using v e n \<open>xs = y # ys\<close> by (simp del: parse_value.simps)
  qed
qed

lemma dumps_JDict: "dumps (JDict kvs) = ''{'' @ py_join '', '' (map dumps_member kvs) @ ''}''"
proof -
  have "(\<lambda>(k, v). dumps_str k @ '': '' @ dumps v) = dumps_member"
    by (auto simp: dumps_member_def)
  then show ?thesis by simp
qed

lemma parse_members_dumps:
  assumes "\<And>k v n r. (k, v) \<in> set kvs \<Longrightarrow> size v < n \<Longrightarrow> json_stop r \<Longrightarrow>
             parse_value n (dumps v @ r) = Some (v, r)"
    and "kvs \<noteq> []" and "size_list (size_prod (\<lambda>_. 0) size) kvs < n"
  shows "parse_members n (py_join '', '' (map dumps_member kvs) @ CHR ''}'' # r) = Some (kvs, r)"
  using assms
proof (induction kvs arbitrary: n)
  case Nil
  then show ?case by simp
next
  case (Cons kv kvs)
  obtain k v where kv: "kv = (k, v)" by (cases kv)
  from Cons.prems(3) kv obtain m where n: "n = Suc m" and v: "size v < Suc m"
    and sz: "size_list (size_prod (\<lambda>_. 0) size) kvs < m"
    by (cases n) auto
  let ?t = "py_join '', '' (map dumps_member kvs) @ CHR ''}'' # r"
  let ?u = "if kvs = [] then CHR ''}'' # r else CHR '','' # CHR '' '' # ?t"
  have j: "py_join '', '' (map dumps_member (kv # kvs)) @ CHR ''}'' # r = dumps_member kv @ ?u"
    by (cases kvs) auto
  have pv: "parse_value (Suc m) (dumps v @ ?u) = Some (v, ?u)"
    using v kv by (intro Cons.prems(1) [of k]) simp_all
  have rest: "(case skip_ws ?u of
                f # r3 \<Rightarrow>
                  if f = CHR '','' then
                    map_option (\<lambda>(kvs', r4). ((k, v) # kvs', r4)) (parse_members m r3)
                  else if f = CHR ''}'' then Some ([(k, v)], r3)
                  else None
              | [] \<Rightarrow> None) = Some ((k, v) # kvs, r)"
  proof (cases kvs)
    case Nil
    then show ?thesis by simp
  next
    case (Cons y ys)
    have "parse_members m ?t = Some (kvs, r)"
      using Cons.prems(1) sz Cons kv by (intro Cons.IH) auto
    with Cons show ?thesis by simp
  qed
  show ?case
    unfolding j n using pv rest
    by (simp add: kv dumps_member_def dumps_str_Cons parse_chars_dumps_str del: parse_value.simps)
qed

lemma dumps_member_hd: "\<exists>t. dumps_member kv = CHR 0x22 # t"
  by (simp add: dumps_member_def dumps_str_def)

lemma parse_value_dumps:
  "size v < n \<Longrightarrow> json_stop r \<Longrightarrow> parse_value n (dumps v @ r) = Some (v, r)"
proof (induction v arbitrary: n r)
  case (JInt i)
  then obtain m where n: "n = Suc m" by (cases n) auto
  obtain c cs where i: "int_str i = c # cs" and c: "c = CHR ''-'' \<or> is_digit c"
    using int_str_hd by blast
  have "\<not> is_ws c \<and> c \<noteq> CHR 0x22 \<and> c \<noteq> CHR ''['' \<and> c \<noteq> CHR ''{'' \<and>
        c \<noteq> CHR ''n'' \<and> c \<noteq> CHR ''t'' \<and> c \<noteq> CHR ''f''"
    using c by (auto simp: is_ws_def is_digit_def)
  then show ?case
    using parse_int_int_str [OF JInt.prems(2), of i] by (simp add: n i)
next
  case (JList xs)
  then obtain m where n: "n = Suc m" by (cases n) auto
  show ?case
  proof (cases xs)
    case Nil
    then show ?thesis by (simp add: n)
  next
    case (Cons x ys)
    obtain t where t: "py_join '', '' (map dumps xs) = dumps x @ t"
      using py_join_Cons Cons by fastforce
    obtain c d where x: "dumps x = c # d" and c: "value_start c"
      using dumps_hd by blast
    have "parse_elems m (py_join '', '' (map dumps xs) @ CHR '']'' # r) = Some (xs, r)"
      using JList n Cons by (intro parse_elems_dumps) auto
    then show ?thesis
      using value_start_not_ws [OF c] value_start_not_close [OF c]
      by (simp add: n t x del: parse_elems.simps)
  qed
next
  case (JDict kvs)
  then obtain m where n: "n = Suc m" by (cases n) auto
  show ?case
  proof (cases kvs)
    case Nil
    then show ?thesis by (simp add: n)
  next
    case (Cons kv ys)
    obtain t1 where t1: "py_join '', '' (map dumps_member kvs) = dumps_member kv @ t1"
      using py_join_Cons Cons by fastforce
    obtain t2 where "dumps_member kv = CHR 0x22 # t2"
      using dumps_member_hd by blast
    with t1 obtain t where t: "py_join '', '' (map dumps_member kvs) = CHR 0x22 # t"
      by simp
    have IH: "parse_value n' (dumps v @ r') = Some (v, r')"
      if "(k, v) \<in> set kvs" "size v < n'" "json_stop r'" for k v n' r'
      using that by (intro JDict.IH [of "(k, v)"]) simp_all
    have "parse_members m (py_join '', '' (map dumps_member kvs) @ CHR ''}'' # r) = Some (kvs, r)"
      using JDict.prems n Cons by (intro parse_members_dumps IH) auto
    then show ?thesis
      by (simp add: n t dumps_JDict del: parse_members.simps dumps.simps)
  qed
qed (auto simp: gr0_conv_Suc dumps_str_Cons parse_chars_dumps_str is_ws_def)

section \<open>Lemmas: fuel\<close>

text \<open>
  Every step of the decoder consumes text, so the fuel \<open>Suc (length s)\<close> that
  \<open>loads\<close> passes is never exhausted.
\<close>

lemma skip_ws_length: "length (skip_ws s) \<le> length s"
  by (simp add: skip_ws_def length_dropWhile_le)

lemma skip_ws_shorter: "skip_ws s = c # r \<Longrightarrow> length r < length s"
  using skip_ws_length [of s] by simp

lemma parse_chars_shorter: "parse_chars s = Some (x, r) \<Longrightarrow> length r < length s"
  by (induction s arbitrary: x rule: parse_chars.induct)
     (fastforce split: if_splits list.splits option.splits)+

lemma parse_int_shorter: "parse_int s = Some (i, r) \<Longrightarrow> length r < length s"
  by (auto simp: parse_int_def int_part_def Let_def split: list.splits if_splits)

lemma parse_shorter_all:
  "(\<forall>s v r. parse_value n s = Some (v, r) \<longrightarrow> length r < length s) \<and>
   (\<forall>s vs r. parse_elems n s = Some (vs, r) \<longrightarrow> length r < length s) \<and>
   (\<forall>s kvs r. parse_members n s = Some (kvs, r) \<longrightarrow> length r < length s)"
proof (induction n)
  case 0
  then show ?case by simp
next
  case (Suc n)
  then have E: "parse_elems n s = Some (vs, r) \<Longrightarrow> length r < length s"
    and M: "parse_members n s = Some (kvs, r) \<Longrightarrow> length r < length s" for s vs kvs r
    by blast+
  have V: "length r < length s" if "parse_value (Suc n) s = Some (v, r)" for s v r
    using that skip_ws_length [of s]
    by (auto split: list.splits if_splits dest!: E M skip_ws_shorter parse_chars_shorter parse_int_shorter)
  have "length r < length s" if "parse_elems (Suc n) s = Some (vs, r)" for s vs r
    using that
    by (auto simp del: parse_value.simps split: list.splits if_splits option.splits
             dest!: V E skip_ws_shorter)
  moreover have "length r < length s" if "parse_members (Suc n) s = Some (kvs, r)" for s kvs r
    using that
    by (auto simp del: parse_value.simps split: list.splits if_splits option.splits
             dest!: V M skip_ws_shorter parse_chars_shorter)
  ultimately show ?case using V by blast
qed

lemma parse_value_shorter: "parse_value n s = Some (v, r) \<Longrightarrow> length r < length s"
  using parse_shorter_all by blast

lemma parse_fuel_all:
  "(\<forall>s m. length s < n \<longrightarrow> length s < m \<longrightarrow> parse_value n s = parse_value m s) \<and>
   (\<forall>s m. length s < n \<longrightarrow> length s < m \<longrightarrow> parse_elems n s = parse_elems m s) \<and>
   (\<forall>s m. length s < n \<longrightarrow> length s < m \<longrightarrow> parse_members n s = parse_members m s)"
proof (induction n)
  case 0
  then show ?case by simp
next
  case (Suc n)
  then have E: "parse_elems n s = parse_elems m s"
    and M: "parse_members n s = parse_members m s"
    if "length s < n" "length s < m" for s m
    using that by blast+
  have V: "parse_value (Suc n) s = parse_value (Suc m) s"
    if "length s < Suc n" "length s < Suc m" for s m
  proof (cases "skip_ws s")
    case (Cons c cs)
    with that have "length cs < n" "length cs < m"
      using skip_ws_shorter by fastforce+
    then have eq: "parse_elems n cs = parse_elems m cs" "parse_members n cs = parse_members m cs"
      using E [of cs m] M [of cs m] by simp_all
    show ?thesis by (simp only: parse_value.simps Cons list.case eq)
  qed simp
  have PE: "parse_elems (Suc n) s = parse_elems (Suc m) s"
    if "length s < Suc n" "length s < Suc m" for s m
  proof (cases "parse_value (Suc n) s")
    case (Some vr)
    obtain v r where vr: "vr = (v, r)" by (cases vr)
    with Some have r: "length r < length s" using parse_value_shorter by blast
    show ?thesis
    proof (cases "skip_ws r")
      case (Cons d r')
      with r that have "parse_elems n r' = parse_elems m r'"
        using skip_ws_shorter by (intro E) fastforce+
      with Some vr Cons V [OF that] show ?thesis by (simp del: parse_value.simps)
    qed (use Some vr V [OF that] in \<open>simp del: parse_value.simps\<close>)
  qed (use V [OF that] in \<open>simp del: parse_value.simps\<close>)
  have PM: "parse_members (Suc n) s = parse_members (Suc m) s"
    if "length s < Suc n" "length s < Suc m" for s m
  proof -
    have V': "parse_value (Suc n) t = parse_value (Suc m) t" if "length t < length s" for t
      by (rule V) (use that \<open>length s < Suc n\<close> \<open>length s < Suc m\<close> in linarith)+
    have M': "parse_members n t = parse_members m t" if "length t < length s" for t
      by (rule M) (use that \<open>length s < Suc n\<close> \<open>length s < Suc m\<close> in linarith)+
    show ?thesis
    proof (cases "skip_ws s")
      case (Cons d cs)
      note d = this
      show ?thesis
      proof (cases "parse_chars cs")
        case (Some kr)
        obtain k r where kr: "kr = (k, r)" by (cases kr)
        show ?thesis
        proof (cases "skip_ws r")
          case (Cons e r1)
          have "length r1 < length s"
            using d Some kr Cons by (auto dest!: skip_ws_shorter parse_chars_shorter)
          note r1 = this V' [OF this]
          show ?thesis
          proof (cases "parse_value (Suc n) r1")
            case (Some vr)
            obtain v r2 where vr: "vr = (v, r2)" by (cases vr)
            have r2: "length r2 < length r1"
              using Some vr parse_value_shorter by blast
            show ?thesis
            proof (cases "skip_ws r2")
              case (Cons f r3)
              then have "parse_members n r3 = parse_members m r3"
                using r2 r1(1) by (intro M') (auto dest!: skip_ws_shorter)
              with d \<open>parse_chars cs = Some kr\<close> kr \<open>skip_ws r = e # r1\<close> Some vr r1(2) Cons
              show ?thesis by (simp del: parse_value.simps)
            qed (use d \<open>parse_chars cs = Some kr\<close> kr \<open>skip_ws r = e # r1\<close> Some vr r1(2) in
                 \<open>simp del: parse_value.simps\<close>)
          qed (use d \<open>parse_chars cs = Some kr\<close> kr Cons r1 in \<open>simp del: parse_value.simps\<close>)
        qed (use d Some kr in simp)
      qed (use d in simp)
    qed simp
  qed
  show ?case
  proof (intro conjI allI impI)
    fix s :: string and m
    assume a: "length s < Suc n" "length s < m"
    then obtain m' where m: "m = Suc m'" by (cases m) auto
    show "parse_value (Suc n) s = parse_value m s" unfolding m by (rule V) (use a m in simp)+
    show "parse_elems (Suc n) s = parse_elems m s" unfolding m by (rule PE) (use a m in simp)+
    show "parse_members (Suc n) s = parse_members m s" unfolding m by (rule PM) (use a m in simp)+
  qed
qed

lemma parse_value_fuel:
  "length s < n \<Longrightarrow> length s < m \<Longrightarrow> parse_value n s = parse_value m s"
  using parse_fuel_all by blast

lemma loads_intro:
  assumes "parse_value n s = Some (v, r)" and "length s < n" and "skip_ws r = []"
  shows "loads s = Some v"
proof -
  have "parse_value (Suc (length s)) s = parse_value n s"
    using assms(2) by (intro parse_value_fuel) simp_all
  with assms(1,3) show ?thesis by (simp add: loads_def del: parse_value.simps)
qed

lemma parse_value_dumps_Nil: "parse_value (Suc (max (size v) (length (dumps v)))) (dumps v) = Some (v, [])"
  by (rule parse_value_dumps [of v _ "[]", simplified]) simp

section \<open>Round trip\<close>

lemma loads_dumps: "loads (dumps v) = Some v"
  using parse_value_dumps_Nil by (rule loads_intro) simp_all

end
