(* ===== verification/Http.thy ===== *)
theory Http
  imports JsonText
begin

text \<open>
  The HTTP layer under the client: the \<open>requests\<close> library that \<open>client.py\<close> calls
  (\<open>requests.post(url, headers=headers, json=json)\<close>, lines 43 and 64, and
  \<open>response.json()\<close>, lines 44 and 65) and the network and server behind it.

  The network and the server are a parameter, a \<open>transport\<close>: a function from the
  prepared request to a response or a transport exception.  Nothing is assumed about
  it.  What \<open>requests.post\<close> does before it hands the request over is modelled
  (\<open>requests_post\<close>), because one of the client's calls depends on it.  It turns
  the \<open>url\<close> argument into a string with \<open>str()\<close>, strips it, and prepares it
  (\<open>PreparedRequest.prepare_url\<close>).  It checks every header
  (\<open>check_header_validity\<close>).  Then it looks for a connection adapter for the URL
  (\<open>Session.get_adapter\<close>), and only then sends.

  The client sees this layer through the interface \<open>post_fn\<close>, the type of
  \<open>requests.post\<close>: its lemmas hold for every \<open>post_fn\<close>, and \<open>requests_post\<close>
  is one implementation of it.
\<close>

section \<open>Requests, responses, transports\<close>

text \<open>
  A prepared request as it reaches the network: the URL, the headers, and the body
  text (\<open>PreparedRequest.url\<close>, \<open>.headers\<close>, \<open>.body\<close>).
\<close>

record request =
  req_url :: string
  req_headers :: "(string \<times> string) list"
  req_body :: string

text \<open>\<open>resp_body = None\<close>: the body is not a JSON document.\<close>

record response =
  status_code :: int
  resp_body :: "pyjson option"

text \<open>\<open>Response.json()\<close>.\<close>

definition resp_json :: "response \<Rightarrow> pyjson py_result" where
  "resp_json r = (case resp_body r of None \<Rightarrow> Inl JSONDecodeError | Some j \<Rightarrow> Inr j)"

type_synonym transport = "request \<Rightarrow> response py_result"

text \<open>
  The Python values passed as \<open>url\<close>: a \<open>str\<close>, or a \<open>tuple\<close> (line 57 of
  \<open>client.py\<close> ends in a comma, which makes its \<open>url\<close> a one-element tuple).
\<close>

datatype pyarg = PyStr string | PyTuple "pyarg list"

type_synonym post_fn = "pyarg \<Rightarrow> (string \<times> string) list \<Rightarrow> pyjson \<Rightarrow> response py_result"

section \<open>\<open>str()\<close> of the URL argument\<close>

text \<open>
  One character of \<open>repr(s)\<close> for a string quoted with \<open>q\<close>: backslash and the
  quote are escaped, tab, line feed and carriage return are written \<open>\t \n \r\<close>,
  the other characters that are not printable are written \<open>\xNN\<close>.  Characters are
  taken as the code points 0--255.
\<close>

definition repr_char :: "char \<Rightarrow> char \<Rightarrow> string" where
  "repr_char q c =
     (let n = (of_char c :: nat) in
      if c = CHR 0x5C then [CHR 0x5C, CHR 0x5C]
      else if c = q then [CHR 0x5C, q]
      else if n = 9 then [CHR 0x5C, CHR ''t'']
      else if n = 10 then [CHR 0x5C, CHR ''n'']
      else if n = 13 then [CHR 0x5C, CHR ''r'']
      else if n < 32 \<or> n = 127 \<or> (128 \<le> n \<and> n \<le> 160) \<or> n = 173
        then [CHR 0x5C, CHR ''x'', hex_digit (n div 16), hex_digit (n mod 16)]
      else [c])"

text \<open>\<open>repr(s)\<close>: single quotes, unless \<open>s\<close> holds a single quote and no double quote.\<close>

definition repr_str :: "string \<Rightarrow> string" where
  "repr_str s =
     (let q = (if CHR 0x27 \<in> set s \<and> CHR 0x22 \<notin> set s then CHR 0x22 else CHR 0x27)
      in q # concat (map (repr_char q) s) @ [q])"

fun py_repr :: "pyarg \<Rightarrow> string" where
  "py_repr (PyStr s) = repr_str s"
| "py_repr (PyTuple [x]) = ''('' @ py_repr x @ '',)''"
| "py_repr (PyTuple xs) = ''('' @ py_join '', '' (map py_repr xs) @ '')''"

fun py_str :: "pyarg \<Rightarrow> string" where
  "py_str (PyStr s) = s"
| "py_str (PyTuple xs) = py_repr (PyTuple xs)"

section \<open>\<open>requests.post\<close>\<close>

text \<open>
  \<open>PreparedRequest.prepare_url\<close>: the argument is made a string and stripped; a
  string with a colon that does not start with \<open>http\<close> (in any case) is kept as it is,
  for schemes such as \<open>mailto:\<close>; an \<open>http://\<close> or \<open>https://\<close> URL is accepted;
  anything else has no scheme (\<open>MissingSchema\<close>).  The normalisation of accepted
  URLs (IDNA, re-quoting) is the identity on the client's two URLs and is not modelled.
\<close>

definition prepare_url :: "pyarg \<Rightarrow> string py_result" where
  "prepare_url url =
     (let s = lstrip (py_str url) in
      if CHR '':'' \<in> set s \<and> \<not> startswith (lower s) ''http'' then Inr s
      else if startswith (lower s) ''http://'' \<or> startswith (lower s) ''https://'' then Inr s
      else Inl (MissingSchema s))"

text \<open>
  \<open>check_header_validity\<close>: the value must match \<open>^\S[^\r\n]*$|^$\<close> and the
  name \<open>^[^:\s][^:\r\n]*$\<close>, under \<open>re.match\<close>, where \<open>$\<close> also matches
  before one final line feed.
\<close>

definition no_crlf :: "char \<Rightarrow> bool" where
  "no_crlf c = (c \<noteq> CHR 0x0D \<and> c \<noteq> CHR 0x0A)"

definition drop_final_lf :: "string \<Rightarrow> string" where
  "drop_final_lf v = (if v \<noteq> [] \<and> last v = CHR 0x0A then butlast v else v)"

definition valid_header_value :: "string \<Rightarrow> bool" where
  "valid_header_value v =
     (case drop_final_lf v of
        [] \<Rightarrow> True
      | c # cs \<Rightarrow> \<not> py_isspace c \<and> list_all no_crlf cs)"

definition valid_header_name :: "string \<Rightarrow> bool" where
  "valid_header_name k =
     (case drop_final_lf k of
        [] \<Rightarrow> False
      | c # cs \<Rightarrow> c \<noteq> CHR '':'' \<and> \<not> py_isspace c \<and> list_all (\<lambda>x. x \<noteq> CHR '':'' \<and> no_crlf x) cs)"

definition valid_header :: "string \<times> string \<Rightarrow> bool" where
  "valid_header h = (valid_header_name (fst h) \<and> valid_header_value (snd h))"

text \<open>\<open>Session.get_adapter\<close>: the mounted prefixes are \<open>https://\<close> and \<open>http://\<close>.\<close>

definition has_adapter :: "string \<Rightarrow> bool" where
  "has_adapter u = (startswith (lower u) ''https://'' \<or> startswith (lower u) ''http://'')"

text \<open>
  \<open>PreparedRequest.prepare_body\<close> with a \<open>json\<close> argument: the body is
  \<open>json.dumps(json)\<close>, and the header \<open>Content-Type: application/json\<close> is added
  unless a header of that name (in any case) is already present.
\<close>

definition json_headers :: "(string \<times> string) list \<Rightarrow> (string \<times> string) list" where
  "json_headers hdrs =
     (if list_ex (\<lambda>h. lower (fst h) = ''content-type'') hdrs then hdrs
      else hdrs @ [(''Content-Type'', ''application/json'')])"

text \<open>
  \<open>Session.request\<close>: \<open>prepare_request\<close> builds the request that would go on the
  wire, or raises; only a prepared request is handed to the transport
  (\<open>Session.send\<close>).
\<close>

definition prepare_request :: "pyarg \<Rightarrow> (string \<times> string) list \<Rightarrow> pyjson \<Rightarrow> request py_result" where
  "prepare_request url hdrs body =
     (case prepare_url url of
        Inl e \<Rightarrow> Inl e
      | Inr u \<Rightarrow>
          (case find (\<lambda>h. \<not> valid_header h) hdrs of
             Some h \<Rightarrow> Inl (InvalidHeader (fst h))
           | None \<Rightarrow>
               if has_adapter u
               then Inr \<lparr>req_url = u, req_headers = json_headers hdrs, req_body = dumps body\<rparr>
               else Inl (InvalidSchema u)))"

definition requests_post :: "transport \<Rightarrow> post_fn" where
  "requests_post srv url hdrs body =
     (case prepare_request url hdrs body of Inl e \<Rightarrow> Inl e | Inr rq \<Rightarrow> srv rq)"

section \<open>Lemmas\<close>

text \<open>The definitions the header check of a concrete header evaluates with.\<close>

lemmas valid_header_eval = valid_header_def valid_header_name_def valid_header_value_def
  drop_final_lf_def py_isspace_def no_crlf_def

text \<open>
  An \<open>https://\<close> string reaches the transport unchanged when the headers are valid;
  a tuple never does: its \<open>str()\<close> starts with a parenthesis, so no adapter matches
  it, and \<open>requests.post\<close> raises without sending anything.
\<close>

lemma startswith_https:
  assumes "startswith u ''https://''"
  shows "lstrip u = u" and "startswith (lower u) ''https://''"
proof -
  from assms obtain r where u: "u = ''https://'' @ r"
    by (metis append_take_drop_id startswith_take)
  show "lstrip u = u" unfolding u by (simp add: py_str_simps py_isspace_def)
  show "startswith (lower u) ''https://''" unfolding u by (simp add: py_str_simps lower_char_def)
qed

lemma prepare_url_https:
  assumes "startswith u ''https://''"
  shows "prepare_url (PyStr u) = Inr u"
proof -
  have "startswith (lower u) ''http''"
    using startswith_https(2) [OF assms] by (rule startswith_trans) simp
  then show ?thesis
    using assms by (simp add: prepare_url_def startswith_https)
qed

lemma py_repr_tuple_paren: "\<exists>r. py_repr (PyTuple xs) = CHR ''('' # r"
  by (cases "PyTuple xs" rule: py_repr.cases) auto

lemma py_str_tuple_paren: "\<exists>r. py_str (PyTuple xs) = CHR ''('' # r"
  using py_repr_tuple_paren by simp

lemma paren_not_http:
  "\<not> startswith (lower (CHR ''('' # r)) (CHR ''h'' # p)"
  by (simp add: py_str_simps lower_char_def)

lemma paren_no_adapter: "\<not> has_adapter (CHR ''('' # r)"
  unfolding has_adapter_def using paren_not_http [of r] by blast

lemma prepare_url_tuple:
  assumes "prepare_url (PyTuple xs) = Inr u"
  shows "\<not> has_adapter u"
proof -
  obtain r where r: "py_str (PyTuple xs) = CHR ''('' # r"
    using py_str_tuple_paren by blast
  have "lstrip (CHR ''('' # r) = CHR ''('' # r"
    by (simp add: py_str_simps py_isspace_def)
  with assms r have "u = CHR ''('' # r"
    by (simp add: prepare_url_def Let_def split: if_splits)
  then show ?thesis using paren_no_adapter by blast
qed

lemma prepare_request_tuple: "\<exists>e. prepare_request (PyTuple xs) hdrs b = Inl e"
  by (auto simp: prepare_request_def dest: prepare_url_tuple split: sum.split option.split)

lemma prepare_request_Inr:
  "prepare_request url hdrs b = Inr rq \<Longrightarrow>
     prepare_url url = Inr (req_url rq) \<and> req_headers rq = json_headers hdrs \<and> req_body rq = dumps b"
  by (auto simp: prepare_request_def split: sum.splits option.splits if_splits)

lemma requests_post_tuple_fails:
  "\<exists>e. requests_post srv (PyTuple xs) hdrs b = Inl e"
  by (auto simp: requests_post_def prepare_request_def dest: prepare_url_tuple split: sum.split option.split)

lemma requests_post_tuple_no_send:
  "requests_post srv (PyTuple xs) hdrs b = requests_post srv' (PyTuple xs) hdrs b"
  by (auto simp: requests_post_def prepare_request_def dest: prepare_url_tuple split: sum.split option.split)

lemma requests_post_https:
  "startswith u ''https://'' \<Longrightarrow> list_all valid_header hdrs \<Longrightarrow>
   requests_post srv (PyStr u) hdrs b =
     srv \<lparr>req_url = u, req_headers = json_headers hdrs, req_body = dumps b\<rparr>"
  by (simp add: requests_post_def prepare_request_def prepare_url_https has_adapter_def startswith_https)

end
