(* ===== verification/YocoClient.thy ===== *)
theory YocoClient
  imports Http
begin

text \<open>
  The class \<open>YocoClient\<close> of \<open>src/yoco_python/client.py\<close>.  An instance is a record
  of its attributes.  \<open>charge_id\<close> and \<open>refund_id\<close> are options, because the
  attributes do not exist until a successful call sets them (\<open>None\<close>: reading them
  raises \<open>AttributeError\<close>).  Each method takes the \<open>requests.post\<close> it calls
  (any \<open>post_fn\<close>) and the instance.  It returns what the call returns or raises,
  together with the instance as the call leaves it.  An exception does not undo the
  assignments made before it, so the instance is returned on the error branches too.
\<close>

section \<open>State and constructor\<close>

record yoco_client =
  secret_key :: string
  charge_token :: string
  amount_in_cents :: int
  currency :: string
  charge_success :: bool
  refund_success :: bool
  charge_id :: "pyjson option"
  refund_id :: "pyjson option"

text \<open>
  \<open>__init__(secret_key, charge_token, amount_in_cents, currency='ZAR')\<close>: the last
  argument is optional, \<open>None\<close> standing for "not passed".
\<close>

definition yoco_init :: "string \<Rightarrow> string \<Rightarrow> int \<Rightarrow> string option \<Rightarrow> yoco_client" where
  "yoco_init sk tok amt cur =
     \<lparr>secret_key = sk, charge_token = tok, amount_in_cents = amt,
      currency = (case cur of None \<Rightarrow> ''ZAR'' | Some c \<Rightarrow> c),
      charge_success = False, refund_success = False,
      charge_id = None, refund_id = None\<rparr>"

section \<open>The requests the client builds\<close>

definition charges_url :: string where
  "charges_url = ''https://online.yoco.com/v1/charges/''"

definition auth_headers :: "yoco_client \<Rightarrow> (string \<times> string) list" where
  "auth_headers c = [(''X-Auth-Secret-Key'', secret_key c)]"

definition charge_body :: "yoco_client \<Rightarrow> pyjson" where
  "charge_body c =
     JDict [(''token'', JStr (charge_token c)),
            (''amountInCents'', JInt (amount_in_cents c)),
            (''currency'', JStr (currency c))]"

text \<open>Line 57: the trailing comma makes \<open>url\<close> a one-element tuple.\<close>

definition refunds_url :: pyarg where
  "refunds_url = PyTuple [PyStr ''https://online.yoco.com/v1/refunds/'']"

definition refund_body :: "pyjson \<Rightarrow> pyjson" where
  "refund_body cid = JDict [(''chargeId'', cid)]"

section \<open>\<open>charge()\<close> and \<open>refund()\<close>\<close>

text \<open>
  Each method in two parts, as the code runs: the request it sends (lines 34--43 and
  57--64), and what it does with the response once \<open>requests.post\<close> returns
  (\<open>charge_response\<close>, lines 44--48; \<open>refund_response\<close>, lines 65--69): decode
  the body, and on the success status set the flag, then read \<open>id\<close>.
\<close>

definition charge_response :: "response \<Rightarrow> yoco_client \<Rightarrow> pyjson py_result \<times> yoco_client" where
  "charge_response response c =
     (case resp_json response of
        Inl e \<Rightarrow> (Inl e, c)
      | Inr json_response \<Rightarrow>
          (if status_code response = 201 then
             (let c' = c\<lparr>charge_success := True\<rparr> in
              case py_getitem json_response ''id'' of
                Inl e \<Rightarrow> (Inl e, c')
              | Inr v \<Rightarrow> (Inr json_response, c'\<lparr>charge_id := Some v\<rparr>))
           else (Inr json_response, c)))"

definition charge :: "post_fn \<Rightarrow> yoco_client \<Rightarrow> pyjson py_result \<times> yoco_client" where
  "charge post c =
     (case post (PyStr charges_url) (auth_headers c) (charge_body c) of
        Inl e \<Rightarrow> (Inl e, c)
      | Inr response \<Rightarrow> charge_response response c)"

definition refund_response :: "response \<Rightarrow> yoco_client \<Rightarrow> pyjson py_result \<times> yoco_client" where
  "refund_response response c =
     (case resp_json response of
        Inl e \<Rightarrow> (Inl e, c)
      | Inr json_response \<Rightarrow>
          (if status_code response = 200 then
             (let c' = c\<lparr>refund_success := True\<rparr> in
              case py_getitem json_response ''id'' of
                Inl e \<Rightarrow> (Inl e, c')
              | Inr v \<Rightarrow> (Inr json_response, c'\<lparr>refund_id := Some v\<rparr>))
           else (Inr json_response, c)))"

definition refund :: "post_fn \<Rightarrow> yoco_client \<Rightarrow> pyjson py_result \<times> yoco_client" where
  "refund post c =
     (case charge_id c of
        None \<Rightarrow> (Inl (AttributeError ''charge_id''), c)
      | Some cid \<Rightarrow>
          (case post refunds_url (auth_headers c) (refund_body cid) of
             Inl e \<Rightarrow> (Inl e, c)
           | Inr response \<Rightarrow> refund_response response c))"

declare charge_def [client_unfold] refund_def [client_unfold] resp_json_def [client_unfold]
  charge_response_def [client_unfold] refund_response_def [client_unfold]

text \<open>
  The one request each method sends, and the attributes that no method writes
  (\<open>config\<close>: what \<open>__init__\<close> stored).
\<close>

abbreviation charge_call :: "post_fn \<Rightarrow> yoco_client \<Rightarrow> response py_result" where
  "charge_call post c \<equiv> post (PyStr charges_url) (auth_headers c) (charge_body c)"

abbreviation refund_call :: "post_fn \<Rightarrow> yoco_client \<Rightarrow> pyjson \<Rightarrow> response py_result" where
  "refund_call post c cid \<equiv> post refunds_url (auth_headers c) (refund_body cid)"

definition config :: "yoco_client \<Rightarrow> string \<times> string \<times> int \<times> string" where
  "config c = (secret_key c, charge_token c, amount_in_cents c, currency c)"

section \<open>One lemma per branch\<close>

text \<open>
  Each branch of \<open>charge\<close> and \<open>refund\<close>, named by what the server or the
  network did: the exception raised or the status code and body returned.
\<close>

lemma charge_transport_error:
  "charge_call post c = Inl e \<Longrightarrow> charge post c = (Inl e, c)"
  by (simp add: client_unfold)

lemma charge_json_error:
  "charge_call post c = Inr r \<Longrightarrow> resp_body r = None \<Longrightarrow> charge post c = (Inl JSONDecodeError, c)"
  by (simp add: client_unfold)

lemma charge_other_status:
  "charge_call post c = Inr r \<Longrightarrow> resp_body r = Some j \<Longrightarrow> status_code r \<noteq> 201 \<Longrightarrow>
   charge post c = (Inr j, c)"
  by (simp add: client_unfold)

lemma charge_created:
  "charge_call post c = Inr r \<Longrightarrow> resp_body r = Some j \<Longrightarrow> status_code r = 201 \<Longrightarrow>
   py_getitem j ''id'' = Inr v \<Longrightarrow>
   charge post c = (Inr j, c\<lparr>charge_success := True, charge_id := Some v\<rparr>)"
  by (simp add: client_unfold)

lemma charge_created_no_id:
  "charge_call post c = Inr r \<Longrightarrow> resp_body r = Some j \<Longrightarrow> status_code r = 201 \<Longrightarrow>
   py_getitem j ''id'' = Inl e \<Longrightarrow> charge post c = (Inl e, c\<lparr>charge_success := True\<rparr>)"
  by (simp add: client_unfold)

lemma refund_no_charge_id:
  "charge_id c = None \<Longrightarrow> refund post c = (Inl (AttributeError ''charge_id''), c)"
  by (simp add: client_unfold)

lemma refund_transport_error:
  "charge_id c = Some cid \<Longrightarrow> refund_call post c cid = Inl e \<Longrightarrow> refund post c = (Inl e, c)"
  by (simp add: client_unfold)

lemma refund_json_error:
  "charge_id c = Some cid \<Longrightarrow> refund_call post c cid = Inr r \<Longrightarrow> resp_body r = None \<Longrightarrow>
   refund post c = (Inl JSONDecodeError, c)"
  by (simp add: client_unfold)

lemma refund_other_status:
  "charge_id c = Some cid \<Longrightarrow> refund_call post c cid = Inr r \<Longrightarrow> resp_body r = Some j \<Longrightarrow>
   status_code r \<noteq> 200 \<Longrightarrow> refund post c = (Inr j, c)"
  by (simp add: client_unfold)

lemma refund_ok:
  "charge_id c = Some cid \<Longrightarrow> refund_call post c cid = Inr r \<Longrightarrow> resp_body r = Some j \<Longrightarrow>
   status_code r = 200 \<Longrightarrow> py_getitem j ''id'' = Inr v \<Longrightarrow>
   refund post c = (Inr j, c\<lparr>refund_success := True, refund_id := Some v\<rparr>)"
  by (simp add: client_unfold)

lemma refund_ok_no_id:
  "charge_id c = Some cid \<Longrightarrow> refund_call post c cid = Inr r \<Longrightarrow> resp_body r = Some j \<Longrightarrow>
   status_code r = 200 \<Longrightarrow> py_getitem j ''id'' = Inl e \<Longrightarrow>
   refund post c = (Inl e, c\<lparr>refund_success := True\<rparr>)"
  by (simp add: client_unfold)

lemma charge_cases:
  obtains (same) "snd (charge post c) = c"
  | (flag) "snd (charge post c) = c\<lparr>charge_success := True\<rparr>"
  | (stored) v where "snd (charge post c) = c\<lparr>charge_success := True, charge_id := Some v\<rparr>"
proof -
  have "snd (charge post c) = c \<or> snd (charge post c) = c\<lparr>charge_success := True\<rparr> \<or>
        (\<exists>v. snd (charge post c) = c\<lparr>charge_success := True, charge_id := Some v\<rparr>)"
    by (auto simp: client_unfold Let_def split: sum.split if_split)
  then show ?thesis using that by blast
qed

lemma refund_cases:
  obtains (same) "snd (refund post c) = c"
  | (flag) "snd (refund post c) = c\<lparr>refund_success := True\<rparr>" and "charge_id c \<noteq> None"
  | (stored) v where "snd (refund post c) = c\<lparr>refund_success := True, refund_id := Some v\<rparr>"
      and "charge_id c \<noteq> None"
proof -
  have "snd (refund post c) = c \<or>
        (charge_id c \<noteq> None \<and> snd (refund post c) = c\<lparr>refund_success := True\<rparr>) \<or>
        (charge_id c \<noteq> None \<and>
          (\<exists>v. snd (refund post c) = c\<lparr>refund_success := True, refund_id := Some v\<rparr>))"
    by (auto simp: client_unfold Let_def split: sum.split if_split option.split)
  then show ?thesis using that by blast
qed

lemma charge_config [simp]: "config (snd (charge post c)) = config c"
  by (cases rule: charge_cases [of post c]) (simp_all add: config_def)

lemma refund_config [simp]: "config (snd (refund post c)) = config c"
  by (cases rule: refund_cases [of post c]) (simp_all add: config_def)


text \<open>
  Line 57 in \<open>requests\<close>' terms: the refund request is never prepared, whatever the
  headers and the body.  Line 45: an answer with a status other than 201 leaves the
  instance as it was.
\<close>

lemma refund_never_prepared: "prepare_request refunds_url hdrs b \<noteq> Inr rq"
  using prepare_request_tuple [of "[PyStr ''https://online.yoco.com/v1/refunds/'']" hdrs b]
  by (auto simp: refunds_url_def)

lemma charge_response_unchanged:
  "status_code r \<noteq> 201 \<Longrightarrow> snd (charge_response r c) = c"
  by (simp add: charge_response_def resp_json_def split: option.split)

section \<open>Properties of the client's methods\<close>

text \<open>C1: a 201 answer to the charge request whose body is a JSON object with an
  \<open>id\<close> member makes \<open>charge()\<close> return the body, set \<open>charge_success\<close>, store
  the id as \<open>charge_id\<close>, and change nothing else.\<close>

theorem charge_created_records_id:
  assumes "charge_call post c = Inr r" and "status_code r = 201"
    and "resp_body r = Some (JDict kvs)" and "map_of (rev kvs) ''id'' = Some v"
  shows "charge post c = (Inr (JDict kvs), c\<lparr>charge_success := True, charge_id := Some v\<rparr>)"
  using assms by (simp add: charge_created)

theorem charge_created_records_id_witness:
  "charge (\<lambda>_ _ _. Inr \<lparr>status_code = 201, resp_body = Some (JDict [(''id'', JStr ''ch_123'')])\<rparr>)
          (yoco_init ''sk_test'' ''tok_1'' 2500 None) =
   (Inr (JDict [(''id'', JStr ''ch_123'')]),
    (yoco_init ''sk_test'' ''tok_1'' 2500 None)\<lparr>charge_success := True,
                                                charge_id := Some (JStr ''ch_123'')\<rparr>)"
  by (rule charge_created_records_id) simp+

text \<open>C2: any other status code with a JSON body makes \<open>charge()\<close> return the body
  and leave the instance as it was: \<open>charge_success\<close> is not set and no
  \<open>charge_id\<close> is stored.\<close>

theorem charge_rejected_unchanged:
  assumes "charge_call post c = Inr r" and "status_code r \<noteq> 201" and "resp_body r = Some j"
  shows "charge post c = (Inr j, c)"
  using assms by (simp add: charge_other_status)

theorem charge_rejected_unchanged_witness:
  "charge (\<lambda>_ _ _. Inr \<lparr>status_code = 400,
                          resp_body = Some (JDict [(''error'', JStr ''invalid_token'')])\<rparr>)
          (yoco_init ''sk_test'' ''tok_1'' 2500 None) =
   (Inr (JDict [(''error'', JStr ''invalid_token'')]), yoco_init ''sk_test'' ''tok_1'' 2500 None)
   \<and> \<not> charge_success (yoco_init ''sk_test'' ''tok_1'' 2500 None)
   \<and> charge_id (yoco_init ''sk_test'' ''tok_1'' 2500 None) = None"
  using charge_rejected_unchanged
    [of "\<lambda>_ _ _. Inr \<lparr>status_code = 400,
                       resp_body = Some (JDict [(''error'', JStr ''invalid_token'')])\<rparr>"
        "yoco_init ''sk_test'' ''tok_1'' 2500 None"]
  by (simp add: yoco_init_def)

text \<open>C3: after a charge that stored \<open>charge_id\<close>, a 200 answer to the refund request
  whose body has an \<open>id\<close> makes \<open>refund()\<close> return the body, set
  \<open>refund_success\<close> and store the id as \<open>refund_id\<close>; this holds for every
  implementation of \<open>requests.post\<close>.\<close>

theorem refund_ok_records_id:
  assumes "charge_id c = Some cid" and "refund_call post c cid = Inr r"
    and "status_code r = 200" and "resp_body r = Some (JDict kvs)"
    and "map_of (rev kvs) ''id'' = Some v"
  shows "refund post c = (Inr (JDict kvs), c\<lparr>refund_success := True, refund_id := Some v\<rparr>)"
  using assms by (simp add: refund_ok)

theorem refund_ok_records_id_witness:
  "refund (\<lambda>_ _ _. Inr \<lparr>status_code = 200, resp_body = Some (JDict [(''id'', JStr ''rf_456'')])\<rparr>)
          ((yoco_init ''sk_test'' ''tok_1'' 2500 None)\<lparr>charge_success := True,
                                                        charge_id := Some (JStr ''ch_123'')\<rparr>) =
   (Inr (JDict [(''id'', JStr ''rf_456'')]),
    (yoco_init ''sk_test'' ''tok_1'' 2500 None)\<lparr>charge_success := True,
       charge_id := Some (JStr ''ch_123''), refund_success := True,
       refund_id := Some (JStr ''rf_456'')\<rparr>)"
  by (rule refund_ok_records_id [THEN trans]) simp+

text \<open>C8: \<open>refund()\<close> on an instance without \<open>charge_id\<close> raises
  \<open>AttributeError\<close> before it builds the request: the result is the same for every
  \<open>requests.post\<close>, so nothing is sent, and the instance is unchanged.\<close>

theorem refund_without_charge_raises:
  assumes "charge_id c = None"
  shows "refund post c = (Inl (AttributeError ''charge_id''), c)"
  using assms by (rule refund_no_charge_id)

theorem refund_without_charge_raises_witness:
  "refund (\<lambda>_ _ _. Inr \<lparr>status_code = 200, resp_body = Some (JDict [(''id'', JInt 1)])\<rparr>)
          (yoco_init ''sk_test'' ''tok_1'' 2500 (Some ''USD'')) =
   (Inl (AttributeError ''charge_id''), yoco_init ''sk_test'' ''tok_1'' 2500 (Some ''USD''))"
  by (rule refund_without_charge_raises) (simp add: yoco_init_def)

text \<open>C9: a 201 answer whose JSON object has no \<open>id\<close> makes \<open>charge()\<close> raise
  \<open>KeyError('id')\<close> after it has set \<open>charge_success\<close>: the instance is left
  claiming a successful charge without a \<open>charge_id\<close>.\<close>

theorem charge_created_without_id:
  assumes "charge_call post c = Inr r" and "status_code r = 201"
    and "resp_body r = Some (JDict kvs)" and "''id'' \<notin> set (map fst kvs)"
  shows "charge post c = (Inl (KeyError ''id''), c\<lparr>charge_success := True\<rparr>)"
proof -
  have "map_of (rev kvs) ''id'' = None"
    using assms(4) by (simp add: map_of_eq_None_iff)
  then have "py_getitem (JDict kvs) ''id'' = Inl (KeyError ''id'')"
    by simp
  with assms show ?thesis by (simp add: charge_created_no_id)
qed

theorem charge_created_without_id_witness:
  "charge (\<lambda>_ _ _. Inr \<lparr>status_code = 201, resp_body = Some (JDict [(''status'', JStr ''ok'')])\<rparr>)
          (yoco_init ''sk_test'' ''tok_1'' 2500 None) =
   (Inl (KeyError ''id''), (yoco_init ''sk_test'' ''tok_1'' 2500 None)\<lparr>charge_success := True\<rparr>)"
  by (rule charge_created_without_id) simp+

text \<open>C10: a response whose body is not JSON makes \<open>charge()\<close> raise
  \<open>JSONDecodeError\<close> whatever its status code, before any attribute is written: the
  instance is unchanged, even when the charge was created (status 201).\<close>

theorem charge_undecodable_unchanged:
  assumes "charge_call post c = Inr r" and "resp_body r = None"
  shows "charge post c = (Inl JSONDecodeError, c)"
  using assms by (rule charge_json_error)

theorem charge_undecodable_unchanged_witness:
  "charge (\<lambda>_ _ _. Inr \<lparr>status_code = 201, resp_body = None\<rparr>) (yoco_init ''sk'' ''tok'' 100 None) =
   (Inl JSONDecodeError, yoco_init ''sk'' ''tok'' 100 None)"
  by (rule charge_undecodable_unchanged) simp+

text \<open>C11: a transport failure of \<open>requests.post\<close> propagates out of \<open>charge()\<close>
  unchanged, and the instance is left as it was.\<close>

theorem charge_transport_failure:
  assumes "charge_call post c = Inl e"
  shows "charge post c = (Inl e, c)"
  using assms by (rule charge_transport_error)

theorem charge_transport_failure_witness:
  "charge (\<lambda>_ _ _. Inl (TransportError ''timeout'')) (yoco_init ''sk'' ''tok'' 100 None) =
   (Inl (TransportError ''timeout''), yoco_init ''sk'' ''tok'' 100 None)"
  by (rule charge_transport_failure) simp

text \<open>C12: \<open>charge()\<close> sends exactly one request: a POST to
  \<open>https://online.yoco.com/v1/charges/\<close> with the header \<open>X-Auth-Secret-Key\<close> set to
  the secret key and the JSON body with exactly the members \<open>token\<close>,
  \<open>amountInCents\<close> and \<open>currency\<close>, holding the instance's attributes unmodified.
  Two implementations of \<open>requests.post\<close> that answer this request alike give the same
  result and the same instance.\<close>

theorem charge_sends_one_request:
  assumes "post (PyStr ''https://online.yoco.com/v1/charges/'')
                 [(''X-Auth-Secret-Key'', secret_key c)]
                 (JDict [(''token'', JStr (charge_token c)),
                         (''amountInCents'', JInt (amount_in_cents c)),
                         (''currency'', JStr (currency c))]) =
           post' (PyStr ''https://online.yoco.com/v1/charges/'')
                 [(''X-Auth-Secret-Key'', secret_key c)]
                 (JDict [(''token'', JStr (charge_token c)),
                         (''amountInCents'', JInt (amount_in_cents c)),
                         (''currency'', JStr (currency c))])"
  shows "charge post c = charge post' c"
  using assms by (simp add: charge_def charges_url_def auth_headers_def charge_body_def)

theorem charge_sends_one_request_witness:
  "charge (\<lambda>u h b. if u = PyStr charges_url \<and> h = auth_headers (yoco_init ''sk'' ''tok'' 100 None)
                       \<and> b = charge_body (yoco_init ''sk'' ''tok'' 100 None)
                    then Inr \<lparr>status_code = 201, resp_body = Some (JDict [(''id'', JInt 7)])\<rparr>
                    else Inl (TransportError ''other''))
          (yoco_init ''sk'' ''tok'' 100 None) =
   charge (\<lambda>_ _ _. Inr \<lparr>status_code = 201, resp_body = Some (JDict [(''id'', JInt 7)])\<rparr>)
          (yoco_init ''sk'' ''tok'' 100 None)"
  by (rule charge_sends_one_request) (simp add: charges_url_def auth_headers_def charge_body_def)

text \<open>C13: \<open>refund()\<close> sends exactly one request, and only when \<open>charge_id\<close> is
  set: its \<open>url\<close> argument is the one-element tuple holding the refunds URL (not the
  URL string), with the header \<open>X-Auth-Secret-Key\<close> and the body
  \<open>{"chargeId": charge_id}\<close>.\<close>

theorem refund_sends_one_request:
  assumes "charge_id c = Some cid"
    and "post (PyTuple [PyStr ''https://online.yoco.com/v1/refunds/''])
              [(''X-Auth-Secret-Key'', secret_key c)] (JDict [(''chargeId'', cid)]) =
         post' (PyTuple [PyStr ''https://online.yoco.com/v1/refunds/''])
              [(''X-Auth-Secret-Key'', secret_key c)] (JDict [(''chargeId'', cid)])"
  shows "refund post c = refund post' c"
  using assms by (simp add: refund_def refunds_url_def auth_headers_def refund_body_def)

theorem refund_sends_one_request_witness:
  "refund (\<lambda>u h b. if u = refunds_url then Inl (TransportError ''down'')
                    else Inr \<lparr>status_code = 200, resp_body = Some (JDict [(''id'', JInt 1)])\<rparr>)
          ((yoco_init ''sk'' ''tok'' 100 None)\<lparr>charge_id := Some (JStr ''ch_1'')\<rparr>) =
   refund (\<lambda>_ _ _. Inl (TransportError ''down''))
          ((yoco_init ''sk'' ''tok'' 100 None)\<lparr>charge_id := Some (JStr ''ch_1'')\<rparr>)"
  by (rule refund_sends_one_request [where cid = "JStr ''ch_1''"]) (simp_all add: refunds_url_def)

end
