(* ===== verification/Lifecycle.thy ===== *)
theory Lifecycle
  imports YocoClient
begin

text \<open>
  How a caller uses an instance: it constructs it once, then calls \<open>charge()\<close> and
  \<open>refund()\<close> on it in some order (spec section 2: construct, charge, optionally refund).
  \<open>exec_op\<close> is one method call; \<open>run\<close> is a caller that calls the methods of a list
  in order and lets the first exception propagate; \<open>runs P c0 c\<close> says that some
  sequence of calls, each through an implementation of \<open>requests.post\<close> in \<open>P\<close>,
  leads from \<open>c0\<close> to \<open>c\<close>, exceptions caught or not.  \<open>P = UNIV\<close> is every
  behaviour of the library, the network and the server; \<open>P = range requests_post\<close> is
  the real \<open>requests\<close> library in front of any network and server.
\<close>

section \<open>Calls and runs\<close>

datatype op = Charge | Refund

definition exec_op :: "post_fn \<Rightarrow> op \<Rightarrow> yoco_client \<Rightarrow> pyjson py_result \<times> yoco_client" where
  "exec_op post m c = (case m of Charge \<Rightarrow> charge post c | Refund \<Rightarrow> refund post c)"

fun run :: "post_fn \<Rightarrow> op list \<Rightarrow> yoco_client \<Rightarrow> pyjson list py_result \<times> yoco_client" where
  "run post [] c = (Inr [], c)"
| "run post (m # ms) c =
     (case exec_op post m c of
        (Inl e, c') \<Rightarrow> (Inl e, c')
      | (Inr r, c') \<Rightarrow>
          (case run post ms c' of
             (Inl e, c'') \<Rightarrow> (Inl e, c'')
           | (Inr rs, c'') \<Rightarrow> (Inr (r # rs), c'')))"

inductive runs :: "post_fn set \<Rightarrow> yoco_client \<Rightarrow> yoco_client \<Rightarrow> bool" for P where
  runs_refl: "runs P c c"
| runs_step: "runs P c0 c \<Longrightarrow> post \<in> P \<Longrightarrow> runs P c0 (snd (exec_op post m c))"

section \<open>The client invariant\<close>

text \<open>
  An id is stored only together with its success flag, and a refund succeeds only on an
  instance with a charge id.
\<close>

definition client_inv :: "yoco_client \<Rightarrow> bool" where
  "client_inv c =
     ((charge_id c = None \<or> charge_success c) \<and> (refund_id c = None \<or> refund_success c) \<and>
      (refund_success c \<longrightarrow> charge_id c \<noteq> None))"

section \<open>Lemmas on one call\<close>

lemma exec_op_config [simp]: "config (snd (exec_op post m c)) = config c"
  by (cases m) (simp_all add: exec_op_def)

lemma charge_body_config: "config c = config c' \<Longrightarrow> charge_body c = charge_body c'"
  by (simp add: config_def charge_body_def)

lemma exec_op_cases:
  obtains (same) "snd (exec_op post m c) = c"
  | (charge_flag) "snd (exec_op post m c) = c\<lparr>charge_success := True\<rparr>"
  | (charge_stored) v where "snd (exec_op post m c) = c\<lparr>charge_success := True, charge_id := Some v\<rparr>"
  | (refund_flag) "snd (exec_op post m c) = c\<lparr>refund_success := True\<rparr>" and "charge_id c \<noteq> None"
  | (refund_stored) v where
      "snd (exec_op post m c) = c\<lparr>refund_success := True, refund_id := Some v\<rparr>"
      and "charge_id c \<noteq> None"
proof (cases m)
  case Charge
  then have ex: "exec_op post m c = charge post c" by (simp add: exec_op_def)
  show ?thesis
  proof (cases rule: charge_cases [of post c])
    case same
    with ex show ?thesis by (intro that(1)) simp
  next
    case flag
    with ex show ?thesis by (intro that(2)) simp
  next
    case (stored v)
    with ex show ?thesis by (intro that(3)) simp
  qed
next
  case Refund
  then have ex: "exec_op post m c = refund post c" by (simp add: exec_op_def)
  show ?thesis
  proof (cases rule: refund_cases [of post c])
    case same
    with ex show ?thesis by (intro that(1)) simp
  next
    case flag
    with ex show ?thesis by (intro that(4)) simp_all
  next
    case (stored v)
    with ex show ?thesis by (intro that(5)) simp_all
  qed
qed

lemma exec_op_inv: "client_inv c \<Longrightarrow> client_inv (snd (exec_op post m c))"
  by (cases rule: exec_op_cases [of post m c]) (auto simp: client_inv_def)

lemma exec_op_flags:
  "charge_success c \<Longrightarrow> charge_success (snd (exec_op post m c))"
  "refund_success c \<Longrightarrow> refund_success (snd (exec_op post m c))"
  by (cases rule: exec_op_cases [of post m c]; simp)+

lemma refund_requests_raises: "\<exists>e. refund (requests_post srv) c = (Inl e, c)"
proof (cases "charge_id c")
  case None
  then show ?thesis by (simp add: refund_no_charge_id)
next
  case (Some cid)
  obtain e where "requests_post srv refunds_url (auth_headers c) (refund_body cid) = Inl e"
    unfolding refunds_url_def using requests_post_tuple_fails by blast
  with Some show ?thesis by (simp add: refund_transport_error)
qed

lemma refund_requests_unchanged: "snd (refund (requests_post srv) c) = c"
  using refund_requests_raises [of srv c] by auto

section \<open>Lemmas on runs\<close>

lemma runs_config: "runs P c0 c \<Longrightarrow> config c = config c0"
  by (induction rule: runs.induct) simp_all

lemma runs_inv: "runs P c0 c \<Longrightarrow> client_inv c0 \<Longrightarrow> client_inv c"
  by (induction rule: runs.induct) (simp_all add: exec_op_inv)

lemma init_inv: "client_inv (yoco_init sk tok amt cur)"
  by (simp add: client_inv_def yoco_init_def)

lemma runs_requests_refund:
  "runs (range requests_post) c0 c \<Longrightarrow> \<not> refund_success c0 \<Longrightarrow> refund_id c0 = None \<Longrightarrow>
   \<not> refund_success c \<and> refund_id c = None"
proof (induction rule: runs.induct)
  case runs_refl
  then show ?case by simp
next
  case (runs_step c0 c post m)
  then obtain srv where post: "post = requests_post srv" by blast
  show ?case
  proof (cases m)
    case Charge
    with runs_step show ?thesis
      by (cases rule: charge_cases [of post c]) (simp_all add: exec_op_def)
  next
    case Refund
    with runs_step show ?thesis by (simp add: exec_op_def post refund_requests_unchanged)
  qed
qed

lemma runs_flags:
  "runs P c0 c \<Longrightarrow> charge_success c0 \<Longrightarrow> charge_success c"
  "runs P c0 c \<Longrightarrow> refund_success c0 \<Longrightarrow> refund_success c"
  by (induction rule: runs.induct) (simp_all add: exec_op_flags)

section \<open>Properties of runs\<close>

text \<open>C5: through the real \<open>requests\<close> library, whatever the network and the server
  do, no sequence of calls on a fresh instance ever sets \<open>refund_success\<close> or stores a
  \<open>refund_id\<close>.\<close>

theorem requests_client_never_refunds:
  assumes "runs (range requests_post) (yoco_init sk tok amt cur) c"
  shows "\<not> refund_success c \<and> refund_id c = None"
  using runs_requests_refund [OF assms] by (simp add: yoco_init_def)

lemma charged_through_requests:
  "charge_id (snd (exec_op (requests_post (\<lambda>_. Inr \<lparr>status_code = 201,
         resp_body = Some (JDict [(''id'', JStr ''ch_1'')])\<rparr>)) Charge
         (yoco_init ''sk'' ''tok'' 100 None))) = Some (JStr ''ch_1'')"
  by (simp add: exec_op_def charge_def charge_response_def requests_post_def prepare_request_def prepare_url_def charges_url_def
      yoco_init_def auth_headers_def valid_header_eval has_adapter_def py_str_simps lower_char_def
      resp_json_def)

theorem requests_client_never_refunds_witness:
  "charge_id (snd (exec_op (requests_post (\<lambda>_. Inr \<lparr>status_code = 201,
         resp_body = Some (JDict [(''id'', JStr ''ch_1'')])\<rparr>)) Charge (yoco_init ''sk'' ''tok'' 100 None))) = Some (JStr ''ch_1'')
   \<and> \<not> refund_success (snd (exec_op (requests_post (\<lambda>_. Inr \<lparr>status_code = 201,
         resp_body = Some (JDict [(''id'', JStr ''ch_1'')])\<rparr>)) Refund
       (snd (exec_op (requests_post (\<lambda>_. Inr \<lparr>status_code = 201,
         resp_body = Some (JDict [(''id'', JStr ''ch_1'')])\<rparr>)) Charge (yoco_init ''sk'' ''tok'' 100 None)))))
   \<and> refund_id (snd (exec_op (requests_post (\<lambda>_. Inr \<lparr>status_code = 201,
         resp_body = Some (JDict [(''id'', JStr ''ch_1'')])\<rparr>)) Refund
       (snd (exec_op (requests_post (\<lambda>_. Inr \<lparr>status_code = 201,
         resp_body = Some (JDict [(''id'', JStr ''ch_1'')])\<rparr>)) Charge (yoco_init ''sk'' ''tok'' 100 None))))) = None"
proof -
  have "runs (range requests_post) (yoco_init ''sk'' ''tok'' 100 None)
          (snd (exec_op (requests_post (\<lambda>_. Inr \<lparr>status_code = 201,
         resp_body = Some (JDict [(''id'', JStr ''ch_1'')])\<rparr>)) Refund
            (snd (exec_op (requests_post (\<lambda>_. Inr \<lparr>status_code = 201,
         resp_body = Some (JDict [(''id'', JStr ''ch_1'')])\<rparr>)) Charge (yoco_init ''sk'' ''tok'' 100 None)))))"
    by (intro runs_step runs_refl rangeI)
  then show ?thesis
    using requests_client_never_refunds charged_through_requests by blast
qed


text \<open>C7: every instance reachable from a fresh one, by any calls through any
  implementation of \<open>requests.post\<close>, satisfies the client invariant: a stored
  \<open>charge_id\<close> comes with \<open>charge_success\<close>, a stored \<open>refund_id\<close> with
  \<open>refund_success\<close>, and \<open>refund_success\<close> only with a \<open>charge_id\<close>.\<close>

theorem reachable_client_inv:
  assumes "runs P (yoco_init sk tok amt cur) c"
  shows "client_inv c"
  using runs_inv [OF assms init_inv] .

theorem reachable_client_inv_witness:
  "client_inv (snd (exec_op (\<lambda>_ _ _. Inr \<lparr>status_code = 201, resp_body = Some (JDict [])\<rparr>)
      Charge (yoco_init ''sk'' ''tok'' 100 None)))"
  by (rule reachable_client_inv [where P = UNIV and sk = "''sk''" and tok = "''tok''"
        and amt = 100 and cur = None]) (intro runs_step runs_refl UNIV_I)

text \<open>C14: in every instance reachable from \<open>YocoClient(sk, tok, amt, cur)\<close>, the body
  that \<open>charge()\<close> sends has exactly the members \<open>token\<close>, \<open>amountInCents\<close>
  and \<open>currency\<close>, holding the constructor's arguments unmodified (the currency
  \<open>ZAR\<close> when none was passed).\<close>

theorem charge_body_fixed:
  assumes "runs P (yoco_init sk tok amt cur) c"
  shows "charge_body c =
           JDict [(''token'', JStr tok), (''amountInCents'', JInt amt),
                  (''currency'', JStr (case cur of None \<Rightarrow> ''ZAR'' | Some x \<Rightarrow> x))]"
proof -
  have "charge_body c = charge_body (yoco_init sk tok amt cur)"
    using runs_config [OF assms] by (rule charge_body_config)
  then show ?thesis by (simp add: charge_body_def yoco_init_def)
qed

theorem charge_body_fixed_witness:
  "charge_body (snd (exec_op (\<lambda>_ _ _. Inl (TransportError ''reset'')) Refund
     (snd (exec_op (\<lambda>_ _ _. Inr \<lparr>status_code = 201, resp_body = Some (JDict [(''id'', JInt 5)])\<rparr>)
        Charge (yoco_init ''sk'' ''tok'' 1999 None))))) =
   JDict [(''token'', JStr ''tok''), (''amountInCents'', JInt 1999), (''currency'', JStr ''ZAR'')]"
  using charge_body_fixed [where P = UNIV and sk = "''sk''" and tok = "''tok''" and amt = 1999
      and cur = None]
  by (simp add: runs_step runs_refl)

text \<open>C15: \<open>charge_success\<close> and \<open>refund_success\<close> are never reset: once a
  charge has succeeded, later calls (a rejected second charge included) leave the flag
  true, so it does not say whether the last call succeeded.\<close>

theorem success_flags_sticky:
  assumes "runs P c0 c" and "charge_success c0"
  shows "charge_success c"
  using runs_flags(1) [OF assms] .

theorem success_flags_sticky_witness:
  "charge_success (snd (exec_op (\<lambda>_ _ _. Inr \<lparr>status_code = 402,
        resp_body = Some (JDict [(''errorCode'', JStr ''card_declined'')])\<rparr>) Charge
     (snd (exec_op (\<lambda>_ _ _. Inr \<lparr>status_code = 201, resp_body = Some (JDict [(''id'', JStr ''ch'')])\<rparr>)
        Charge (yoco_init ''sk'' ''tok'' 100 None)))))"
proof -
  let ?c0 = "snd (exec_op (\<lambda>_ _ _. Inr \<lparr>status_code = 201,
               resp_body = Some (JDict [(''id'', JStr ''ch'')])\<rparr>) Charge (yoco_init ''sk'' ''tok'' 100 None))"
  have "charge_success ?c0"
    by (simp add: exec_op_def charge_def charge_response_def resp_json_def)
  then show ?thesis
    by (rule success_flags_sticky [where P = UNIV, OF runs_step [OF runs_refl UNIV_I]])
qed

end
