(* ===== verification/YocoServer.thy ===== *)
theory YocoServer
  imports Http
begin

text \<open>
  The Yoco online API as the client's environment (spec section 6), with no code of this
  repository behind it: what the spec promises of its two endpoints, as a
  nondeterministic step relation \<open>srv_step s rq a s'\<close>: in state \<open>s\<close>, the request
  \<open>rq\<close> gets the answer \<open>a\<close> (a response, or a transport exception) and leaves the
  server in \<open>s'\<close>.

  \<^item> \<open>POST https://online.yoco.com/v1/charges/\<close> whose JSON body holds a string
    \<open>token\<close> not charged before (a card token is single-use, spec glossary), an integer
    \<open>amountInCents\<close> and a string \<open>currency\<close> may create a charge under a fresh id
    and answer 201 with that \<open>id\<close> (\<open>srv_charge_created\<close>);
  \<^item> \<open>POST https://online.yoco.com/v1/refunds/\<close> whose body names an existing charge
    that is not yet refunded by \<open>chargeId\<close> may refund it and answer 200 with the
    refund's \<open>id\<close> (\<open>srv_refund_created\<close>);
  \<^item> any request may be declined with another status, changing nothing
    (\<open>srv_declined\<close>); the network may fail before the server is reached
    (\<open>srv_unreachable\<close>) or lose the answer after the server has acted
    (\<open>srv_answer_lost\<close>).

  The bodies of the 201 and 200 answers may hold members besides \<open>id\<close>; nothing else is
  assumed of them, of the declining statuses, or of authentication (a wrong key is one
  more reason to decline).
\<close>

section \<open>Server state\<close>

record api_charge =
  ch_token :: string
  ch_amount :: int
  ch_currency :: string
  ch_refunded :: bool

text \<open>The charges by id, the latest entry for an id first.\<close>

record api_state =
  api_charges :: "(string \<times> api_charge) list"

definition api_charges_url :: string where
  "api_charges_url = ''https://online.yoco.com/v1/charges/''"

definition api_refunds_url :: string where
  "api_refunds_url = ''https://online.yoco.com/v1/refunds/''"

text \<open>The charge a decoded request body asks for, if it has the three fields.\<close>

definition charge_of_body :: "pyjson \<Rightarrow> api_charge option" where
  "charge_of_body b =
     (case (py_getitem b ''token'', py_getitem b ''amountInCents'', py_getitem b ''currency'') of
        (Inr (JStr t), Inr (JInt n), Inr (JStr cur)) \<Rightarrow>
          Some \<lparr>ch_token = t, ch_amount = n, ch_currency = cur, ch_refunded = False\<rparr>
      | _ \<Rightarrow> None)"

definition refunded :: "api_state \<Rightarrow> string \<Rightarrow> bool" where
  "refunded s i = (case map_of (api_charges s) i of Some ch \<Rightarrow> ch_refunded ch | None \<Rightarrow> False)"

text \<open>A card token is single-use (spec glossary): no two charges hold the same token.\<close>

definition tokens_single_use :: "api_state \<Rightarrow> bool" where
  "tokens_single_use s = distinct (map (ch_token \<circ> snd) (api_charges s))"

section \<open>Server steps\<close>

inductive srv_step :: "api_state \<Rightarrow> request \<Rightarrow> response py_result \<Rightarrow> api_state \<Rightarrow> bool" where
  srv_charge_created:
    "req_url rq = api_charges_url \<Longrightarrow> loads (req_body rq) = Some b \<Longrightarrow>
     charge_of_body b = Some ch \<Longrightarrow> ch_token ch \<notin> set (map (ch_token \<circ> snd) (api_charges s)) \<Longrightarrow>
     i \<notin> set (map fst (api_charges s)) \<Longrightarrow> map_of (rev kvs) ''id'' = Some (JStr i) \<Longrightarrow>
     srv_step s rq (Inr \<lparr>status_code = 201, resp_body = Some (JDict kvs)\<rparr>)
       (s\<lparr>api_charges := (i, ch) # api_charges s\<rparr>)"
| srv_refund_created:
    "req_url rq = api_refunds_url \<Longrightarrow> loads (req_body rq) = Some b \<Longrightarrow>
     py_getitem b ''chargeId'' = Inr (JStr i) \<Longrightarrow> map_of (api_charges s) i = Some ch \<Longrightarrow>
     \<not> ch_refunded ch \<Longrightarrow> map_of (rev kvs) ''id'' = Some (JStr r) \<Longrightarrow>
     srv_step s rq (Inr \<lparr>status_code = 200, resp_body = Some (JDict kvs)\<rparr>)
       (s\<lparr>api_charges := (i, ch\<lparr>ch_refunded := True\<rparr>) # api_charges s\<rparr>)"
| srv_declined:
    "status_code r \<noteq> 200 \<Longrightarrow> status_code r \<noteq> 201 \<Longrightarrow> srv_step s rq (Inr r) s"
| srv_unreachable:
    "srv_step s rq (Inl (TransportError m)) s"
| srv_answer_lost:
    "srv_step s rq (Inr r) s' \<Longrightarrow> srv_step s rq (Inl (TransportError m)) s'"

section \<open>Lemmas\<close>

lemma charge_of_body_unrefunded: "charge_of_body b = Some ch \<Longrightarrow> \<not> ch_refunded ch"
  by (auto simp: charge_of_body_def split: sum.splits pyjson.splits)

text \<open>
  A request to any URL but the refunds endpoint refunds nothing, and it keeps every
  charge the server already holds.
\<close>

lemma srv_step_not_refunds:
  assumes "srv_step s rq a s'" and "req_url rq \<noteq> api_refunds_url"
  shows "refunded s' i = refunded s i"
    and "map_of (api_charges s) j = Some ch \<Longrightarrow> map_of (api_charges s') j = Some ch"
  using assms
  by (induction rule: srv_step.induct)
     (auto simp: refunded_def map_of_eq_None_iff [symmetric] dest: charge_of_body_unrefunded
           split: option.split)

lemma srv_step_single_use:
  "srv_step s rq a s' \<Longrightarrow> req_url rq \<noteq> api_refunds_url \<Longrightarrow> tokens_single_use s \<Longrightarrow> tokens_single_use s'"
  by (induction rule: srv_step.induct) (auto simp: tokens_single_use_def)

text \<open>Two charges of one token on a server where tokens are single-use are one charge.\<close>

lemma single_use_same_charge:
  assumes "tokens_single_use s" and "map_of (api_charges s) i = Some ch" and "map_of (api_charges s) j = Some ch'"
    and "ch_token ch = ch_token ch'"
  shows "i = j"
proof -
  have inj: "inj_on (ch_token \<circ> snd) (set (api_charges s))"
    using assms(1) by (simp add: tokens_single_use_def distinct_map)
  have m1: "(i, ch) \<in> set (api_charges s)" and m2: "(j, ch') \<in> set (api_charges s)"
    using assms(2,3) by (simp_all add: map_of_SomeD)
  have "(i, ch) = (j, ch')"
    using inj_onD [OF inj _ m1 m2] assms(4) by simp
  then show ?thesis by simp
qed

lemma srv_step_tokens:
  "srv_step s rq a s' \<Longrightarrow>
   set (map (ch_token \<circ> snd) (api_charges s)) \<subseteq> set (map (ch_token \<circ> snd) (api_charges s'))"
  by (induction rule: srv_step.induct) auto

text \<open>Outside the refunds endpoint the server only charges the token the request body names.\<close>

lemma srv_step_tokens_from_body:
  assumes "srv_step s rq a s'" and "req_url rq \<noteq> api_refunds_url"
    and "loads (req_body rq) = Some b" and "charge_of_body b = Some ch"
  shows "set (map (ch_token \<circ> snd) (api_charges s')) \<subseteq> insert (ch_token ch) (set (map (ch_token \<circ> snd) (api_charges s)))"
  using assms by (induction rule: srv_step.induct) auto

lemma srv_step_answer_created:
  assumes "srv_step s rq a s'" and "a = Inr r" and "status_code r = 201"
  shows "\<exists>b ch i kvs. loads (req_body rq) = Some b \<and> charge_of_body b = Some ch \<and>
           ch_token ch \<notin> set (map (ch_token \<circ> snd) (api_charges s)) \<and> i \<notin> set (map fst (api_charges s)) \<and> resp_body r = Some (JDict kvs) \<and>
           map_of (rev kvs) ''id'' = Some (JStr i) \<and> s' = s\<lparr>api_charges := (i, ch) # api_charges s\<rparr>"
  using assms by (induction rule: srv_step.induct) auto

end
