(* ===== verification/System.thy ===== *)
theory System
  imports Lifecycle YocoServer
begin

text \<open>
  The client, the \<open>requests\<close> library and the Yoco API together.  A system state is
  the instance and the server's state.  One step is one method call on the instance
  (spec section 2): the method builds its request and calls \<open>requests.post\<close>
  (\<open>prepare_request\<close>); when \<open>requests\<close> raises first, nothing reaches the server;
  otherwise the server takes one \<open>srv_step\<close> on the prepared request, and the method
  handles its answer.  The client's part of each step is the code of \<open>charge\<close> and
  \<open>refund\<close> itself, run through \<open>requests_post\<close> with the server's answer as the
  transport.
\<close>

section \<open>System steps\<close>

record system =
  sys_client :: yoco_client
  sys_api :: api_state

definition sys_init :: "string \<Rightarrow> string \<Rightarrow> int \<Rightarrow> string option \<Rightarrow> api_state \<Rightarrow> system" where
  "sys_init sk tok amt cur s0 = \<lparr>sys_client = yoco_init sk tok amt cur, sys_api = s0\<rparr>"

inductive sys_step :: "system \<Rightarrow> system \<Rightarrow> bool" where
  sys_charge_sent:
    "prepare_request (PyStr charges_url) (auth_headers (sys_client S)) (charge_body (sys_client S)) = Inr rq \<Longrightarrow>
     srv_step (sys_api S) rq a s' \<Longrightarrow>
     sys_step S \<lparr>sys_client = snd (charge (requests_post (\<lambda>_. a)) (sys_client S)), sys_api = s'\<rparr>"
| sys_charge_raised:
    "prepare_request (PyStr charges_url) (auth_headers (sys_client S)) (charge_body (sys_client S)) = Inl e \<Longrightarrow>
     sys_step S (S\<lparr>sys_client := snd (charge (requests_post srv) (sys_client S))\<rparr>)"
| sys_refund_sent:
    "charge_id (sys_client S) = Some cid \<Longrightarrow>
     prepare_request refunds_url (auth_headers (sys_client S)) (refund_body cid) = Inr rq \<Longrightarrow>
     srv_step (sys_api S) rq a s' \<Longrightarrow>
     sys_step S \<lparr>sys_client = snd (refund (requests_post (\<lambda>_. a)) (sys_client S)), sys_api = s'\<rparr>"
| sys_refund_raised:
    "charge_id (sys_client S) = Some cid \<Longrightarrow>
     prepare_request refunds_url (auth_headers (sys_client S)) (refund_body cid) = Inl e \<Longrightarrow>
     sys_step S (S\<lparr>sys_client := snd (refund (requests_post srv) (sys_client S))\<rparr>)"
| sys_refund_no_charge:
    "charge_id (sys_client S) = None \<Longrightarrow>
     sys_step S (S\<lparr>sys_client := snd (refund (requests_post srv) (sys_client S))\<rparr>)"

inductive sys_reach :: "system \<Rightarrow> system \<Rightarrow> bool" for S0 where
  sys_refl: "sys_reach S0 S0"
| sys_next: "sys_reach S0 S \<Longrightarrow> sys_step S S' \<Longrightarrow> sys_reach S0 S'"

text \<open>
  The charge the instance holds is on the server: its \<open>charge_id\<close>, when set, is a
  string naming a server charge of the instance's token, amount and currency that is
  not refunded.
\<close>

definition charge_on_server :: "system \<Rightarrow> bool" where
  "charge_on_server S =
     (case charge_id (sys_client S) of
        None \<Rightarrow> True
      | Some (JStr i) \<Rightarrow>
          map_of (api_charges (sys_api S)) i =
            Some \<lparr>ch_token = charge_token (sys_client S), ch_amount = amount_in_cents (sys_client S),
                  ch_currency = currency (sys_client S), ch_refunded = False\<rparr>
      | Some _ \<Rightarrow> False)"

text \<open>
  Once the server holds a charge of the instance's token while the instance holds no
  charge id, no later step gives it one: the token is single-use, so every further
  charge is declined or fails.
\<close>

definition token_spent :: "system \<Rightarrow> bool" where
  "token_spent S = (charge_token (sys_client S) \<in> set (map (ch_token \<circ> snd) (api_charges (sys_api S))))"

section \<open>Lemmas\<close>

lemma charges_url_not_refunds: "charges_url \<noteq> api_refunds_url"
  by (simp add: charges_url_def api_refunds_url_def)

lemma prepared_charge:
  assumes "prepare_request (PyStr charges_url) (auth_headers c) (charge_body c) = Inr rq"
  shows "req_url rq = charges_url" and "req_body rq = dumps (charge_body c)"
proof -
  have "prepare_url (PyStr charges_url) = Inr charges_url"
    by (rule prepare_url_https) (simp add: charges_url_def)
  with prepare_request_Inr [OF assms] show "req_url rq = charges_url" "req_body rq = dumps (charge_body c)"
    by simp_all
qed

lemma prepare_charge_valid:
  "list_all valid_header (auth_headers c) \<Longrightarrow>
   prepare_request (PyStr charges_url) (auth_headers c) (charge_body c) =
     Inr \<lparr>req_url = charges_url, req_headers = json_headers (auth_headers c),
          req_body = dumps (charge_body c)\<rparr>"
  by (simp add: prepare_request_def prepare_url_https has_adapter_def startswith_https charges_url_def)

lemma charge_prepared:
  "prepare_request (PyStr charges_url) (auth_headers c) (charge_body c) = Inr rq \<Longrightarrow>
   charge (requests_post (\<lambda>_. a)) c = (case a of Inl e \<Rightarrow> (Inl e, c) | Inr r \<Rightarrow> charge_response r c)"
  by (simp add: charge_def requests_post_def)

lemma charge_raised:
  "prepare_request (PyStr charges_url) (auth_headers c) (charge_body c) = Inl e \<Longrightarrow>
   charge (requests_post srv) c = (Inl e, c)"
  by (simp add: charge_def requests_post_def)

lemma charge_body_decoded:
  "charge_of_body (charge_body c) =
     Some \<lparr>ch_token = charge_token c, ch_amount = amount_in_cents c, ch_currency = currency c,
           ch_refunded = False\<rparr>"
  by (simp add: charge_of_body_def charge_body_def)

text \<open>
  The system lemmas take the two facts of the client they rest on as premises: the
  refund request is never prepared (line 57), and a response other than 201 leaves the
  instance as it was (line 45).
\<close>

text \<open>
  A charge request answered 201 by the server: the server recorded the instance's charge
  (its body, sent as \<open>json.dumps\<close> text, decoded by \<open>json.loads\<close>) under a fresh id
  that the answer carries; any other answer leaves the instance as it was.
\<close>

lemma charge_answer_created:
  assumes "prepare_request (PyStr charges_url) (auth_headers c) (charge_body c) = Inr rq"
    and "srv_step s rq (Inr r) s'" and "status_code r = 201"
  obtains i where
      "snd (charge (requests_post (\<lambda>_. Inr r)) c) = c\<lparr>charge_success := True, charge_id := Some (JStr i)\<rparr>"
    and "i \<notin> set (map fst (api_charges s))"
    and "charge_token c \<notin> set (map (ch_token \<circ> snd) (api_charges s))"
    and "s' = s\<lparr>api_charges := (i, \<lparr>ch_token = charge_token c, ch_amount = amount_in_cents c,
                                      ch_currency = currency c, ch_refunded = False\<rparr>) # api_charges s\<rparr>"
proof -
  obtain b ch i kvs where b: "loads (req_body rq) = Some b" and ch: "charge_of_body b = Some ch"
    and fresh: "ch_token ch \<notin> set (map (ch_token \<circ> snd) (api_charges s))"
    and fresh_id: "i \<notin> set (map fst (api_charges s))"
    and body: "resp_body r = Some (JDict kvs)" and id: "map_of (rev kvs) ''id'' = Some (JStr i)"
    and s': "s' = s\<lparr>api_charges := (i, ch) # api_charges s\<rparr>"
    using srv_step_answer_created [OF assms(2) refl assms(3)] by blast
  have "b = charge_body c"
    using b prepared_charge(2) [OF assms(1)] loads_dumps by simp
  with ch have "ch = \<lparr>ch_token = charge_token c, ch_amount = amount_in_cents c,
                      ch_currency = currency c, ch_refunded = False\<rparr>"
    using charge_body_decoded by simp
  moreover have "snd (charge (requests_post (\<lambda>_. Inr r)) c) = c\<lparr>charge_success := True, charge_id := Some (JStr i)\<rparr>"
    using charge_prepared [OF assms(1)] assms(3) body id by (simp add: charge_response_def resp_json_def)
  ultimately show thesis using fresh fresh_id s' by (intro that) simp_all
qed

lemma charge_other_answer:
  assumes guard: "\<And>r c. status_code r \<noteq> 201 \<Longrightarrow> snd (charge_response r c) = c"
    and "prepare_request (PyStr charges_url) (auth_headers c) (charge_body c) = Inr rq"
    and "\<not> (\<exists>r. a = Inr r \<and> status_code r = 201)"
  shows "snd (charge (requests_post (\<lambda>_. a)) c) = c"
proof (cases a)
  case (Inl e)
  then show ?thesis using charge_prepared [OF assms(2)] by simp
next
  case (Inr r)
  with assms(3) have "status_code r \<noteq> 201" by blast
  then show ?thesis using charge_prepared [OF assms(2)] Inr guard by simp
qed

text \<open>
  A system step either leaves the server as it was or takes one server step on a request
  to another URL than the refunds endpoint.
\<close>

lemma sys_step_server:
  assumes no_refund: "\<And>h b rq. prepare_request refunds_url h b \<noteq> Inr rq"
    and "sys_step S S'"
  shows "sys_api S' = sys_api S \<or> (\<exists>rq a. req_url rq \<noteq> api_refunds_url \<and> srv_step (sys_api S) rq a (sys_api S'))"
  using assms(2)
proof (induction rule: sys_step.induct)
  case (sys_charge_sent S rq a s')
  then have "req_url rq \<noteq> api_refunds_url"
    using prepared_charge(1) charges_url_not_refunds by simp
  with sys_charge_sent.hyps(2) show ?case by auto
next
  case (sys_refund_sent S cid rq a s')
  then show ?case by (simp add: no_refund)
qed simp_all

lemma sys_step_refunded:
  assumes no_refund: "\<And>h b rq. prepare_request refunds_url h b \<noteq> Inr rq"
    and "sys_step S S'"
  shows "refunded (sys_api S') i = refunded (sys_api S) i"
  using sys_step_server [OF assms] srv_step_not_refunds(1) by auto

lemma sys_step_keeps_charges:
  assumes no_refund: "\<And>h b rq. prepare_request refunds_url h b \<noteq> Inr rq"
    and "sys_step S S'" and "map_of (api_charges (sys_api S)) j = Some ch"
  shows "map_of (api_charges (sys_api S')) j = Some ch"
  using sys_step_server [OF no_refund assms(2)] srv_step_not_refunds(2) assms(3) by auto

lemma sys_step_single_use:
  assumes no_refund: "\<And>h b rq. prepare_request refunds_url h b \<noteq> Inr rq"
    and "sys_step S S'" and "tokens_single_use (sys_api S)"
  shows "tokens_single_use (sys_api S')"
  using sys_step_server [OF no_refund assms(2)] srv_step_single_use assms(3) by auto

text \<open>
  A step never changes what \<open>__init__\<close> stored, and it adds to the server's charges
  at most the instance's own token.
\<close>

lemma sys_step_config: "sys_step S S' \<Longrightarrow> config (sys_client S') = config (sys_client S)"
  by (induction rule: sys_step.induct) simp_all

lemma sys_step_tokens:
  assumes no_refund: "\<And>h b rq. prepare_request refunds_url h b \<noteq> Inr rq"
    and "sys_step S S'"
  shows "set (map (ch_token \<circ> snd) (api_charges (sys_api S'))) \<subseteq>
           insert (charge_token (sys_client S)) (set (map (ch_token \<circ> snd) (api_charges (sys_api S))))"
  using assms(2)
proof (induction rule: sys_step.induct)
  case (sys_charge_sent S rq a s')
  have "req_url rq \<noteq> api_refunds_url" and "loads (req_body rq) = Some (charge_body (sys_client S))"
    using prepared_charge [OF sys_charge_sent.hyps(1)] charges_url_not_refunds loads_dumps by simp_all
  from srv_step_tokens_from_body [OF sys_charge_sent.hyps(2) this charge_body_decoded] show ?case by simp
next
  case (sys_refund_sent S cid rq a s')
  then show ?case by (simp add: no_refund)
qed auto

text \<open>
  A step that changes the instance's \<open>charge_id\<close> gives it a string id the server did
  not hold before the step.
\<close>

lemma sys_step_new_id:
  assumes guard: "\<And>r c. status_code r \<noteq> 201 \<Longrightarrow> snd (charge_response r c) = c"
    and no_refund: "\<And>h b rq. prepare_request refunds_url h b \<noteq> Inr rq"
    and "sys_step S S'" and "charge_id (sys_client S') \<noteq> charge_id (sys_client S)"
  shows "\<exists>i. charge_id (sys_client S') = Some (JStr i) \<and> i \<notin> set (map fst (api_charges (sys_api S)))"
  using assms(3,4)
proof (induction rule: sys_step.induct)
  case (sys_charge_sent S rq a s')
  show ?case
  proof (cases "\<exists>r. a = Inr r \<and> status_code r = 201")
    case True
    then obtain r where a: "a = Inr r" and st: "status_code r = 201" by blast
    show ?thesis
      by (rule charge_answer_created [OF sys_charge_sent.hyps(1) sys_charge_sent.hyps(2) [unfolded a] st])
         (simp add: a)
  next
    case False
    then show ?thesis
      using charge_other_answer [OF guard sys_charge_sent.hyps(1)] sys_charge_sent.prems by simp
  qed
next
  case (sys_refund_sent S cid rq a s')
  then show ?case by (simp add: no_refund)
qed (simp_all add: charge_raised refund_requests_unchanged)

lemma charge_on_server_keep:
  assumes "charge_on_server S" and "sys_client S' = sys_client S"
    and "\<And>j ch. map_of (api_charges (sys_api S)) j = Some ch \<Longrightarrow> map_of (api_charges (sys_api S')) j = Some ch"
  shows "charge_on_server S'"
  using assms by (auto simp: charge_on_server_def split: option.splits pyjson.splits)

lemma charge_on_server_held:
  assumes "charge_on_server S" and "charge_id (sys_client S) = Some (JStr i)"
  shows "i \<in> set (map fst (api_charges (sys_api S)))"
proof -
  have "map_of (api_charges (sys_api S)) i \<noteq> None"
    using assms by (simp add: charge_on_server_def)
  then show ?thesis by (simp add: map_of_eq_None_iff)
qed

lemma charge_on_server_token:
  assumes "charge_on_server S" and "charge_id (sys_client S) = Some v"
  obtains i ch where "v = JStr i" and "map_of (api_charges (sys_api S)) i = Some ch"
    and "ch_token ch = charge_token (sys_client S)"
  using assms by (cases v) (auto simp: charge_on_server_def)

lemma sys_step_charge_on_server:
  assumes guard: "\<And>r c. status_code r \<noteq> 201 \<Longrightarrow> snd (charge_response r c) = c"
    and no_refund: "\<And>h b rq. prepare_request refunds_url h b \<noteq> Inr rq"
    and "sys_step S S'" and "charge_on_server S"
  shows "charge_on_server S'"
  using assms(3,4)
proof (induction rule: sys_step.induct)
  case (sys_charge_sent S rq a s')
  let ?c = "sys_client S"
  have url: "req_url rq \<noteq> api_refunds_url"
    using prepared_charge(1) [OF sys_charge_sent.hyps(1)] charges_url_not_refunds by simp
  have keep: "map_of (api_charges s') j = Some ch" if "map_of (api_charges (sys_api S)) j = Some ch" for j ch
    using srv_step_not_refunds(2) [OF sys_charge_sent.hyps(2) url that] .
  show ?case
  proof (cases "\<exists>r. a = Inr r \<and> status_code r = 201")
    case True
    then obtain r where a: "a = Inr r" and st: "status_code r = 201" by blast
    show ?thesis
      by (rule charge_answer_created [OF sys_charge_sent.hyps(1) sys_charge_sent.hyps(2) [unfolded a] st])
         (simp add: a charge_on_server_def)
  next
    case False
    have eq: "snd (charge (requests_post (\<lambda>_. a)) ?c) = ?c"
      using charge_other_answer [OF guard sys_charge_sent.hyps(1) False] .
    show ?thesis
      by (rule charge_on_server_keep [OF sys_charge_sent.prems]) (simp_all add: eq keep)
  qed
next
  case (sys_refund_sent S cid rq a s')
  then show ?case by (simp add: no_refund)
next
  case (sys_charge_raised S e srv)
  show ?case
    by (rule charge_on_server_keep [OF sys_charge_raised.prems]) (simp_all add: charge_raised [OF sys_charge_raised.hyps])
next
  case (sys_refund_raised S cid e srv)
  show ?case
    by (rule charge_on_server_keep [OF sys_refund_raised.prems]) (simp_all add: refund_requests_unchanged)
next
  case (sys_refund_no_charge S srv)
  show ?case
    by (rule charge_on_server_keep [OF sys_refund_no_charge.prems]) (simp_all add: refund_requests_unchanged)
qed

lemma sys_step_token_spent:
  assumes guard: "\<And>r c. status_code r \<noteq> 201 \<Longrightarrow> snd (charge_response r c) = c"
    and no_refund: "\<And>h b rq. prepare_request refunds_url h b \<noteq> Inr rq"
    and "sys_step S S'" and "charge_id (sys_client S) = None" and "token_spent S"
  shows "charge_id (sys_client S') = None \<and> token_spent S'"
  using assms(3-5)
proof (induction rule: sys_step.induct)
  case (sys_charge_sent S rq a s')
  let ?c = "sys_client S"
  have grow: "token_spent \<lparr>sys_client = ?c, sys_api = s'\<rparr>"
    using sys_charge_sent.prems(2) srv_step_tokens [OF sys_charge_sent.hyps(2)]
    by (auto simp: token_spent_def)
  have "\<not> (\<exists>r. a = Inr r \<and> status_code r = 201)"
  proof
    assume "\<exists>r. a = Inr r \<and> status_code r = 201"
    then obtain r where "a = Inr r" and st: "status_code r = 201" by blast
    then show False
      using charge_answer_created [OF sys_charge_sent.hyps(1) _ st] sys_charge_sent.hyps(2)
        sys_charge_sent.prems(2) by (auto simp: token_spent_def)
  qed
  then have "snd (charge (requests_post (\<lambda>_. a)) ?c) = ?c"
    using charge_other_answer [OF guard sys_charge_sent.hyps(1)] by blast
  with grow sys_charge_sent.prems(1) show ?case by simp
next
  case (sys_refund_sent S cid rq a s')
  then show ?case by (simp add: no_refund)
qed (simp_all add: charge_raised refund_requests_unchanged token_spent_def)

section \<open>Properties of the system\<close>

text \<open>C21: no refund ever reaches the Yoco API: in every state of the system reachable from
  any start, whatever the server answers and whatever the network does, every charge on
  the server is refunded exactly when it was at the start.  A customer charged through
  this client is never refunded through it.\<close>

theorem server_never_refunds:
  assumes "sys_reach S0 S"
  shows "refunded (sys_api S) i = refunded (sys_api S0) i"
  using assms by (induction rule: sys_reach.induct) (simp_all add: sys_step_refunded [OF refund_never_prepared])

theorem server_never_refunds_witness:
  "refunded (sys_api ((\<lparr>sys_client = (yoco_init ''sk'' ''tok'' 100 None)\<lparr>charge_success := True, charge_id := Some (JStr ''ch_1'')\<rparr>,
       sys_api = \<lparr>api_charges = [(''ch_1'', \<lparr>ch_token = ''tok'', ch_amount = 100, ch_currency = ''ZAR'', ch_refunded = False\<rparr>)]\<rparr>\<rparr>)\<lparr>sys_client := snd (refund (requests_post (\<lambda>_. Inl (TransportError ''down'')))
                            (sys_client (\<lparr>sys_client = (yoco_init ''sk'' ''tok'' 100 None)\<lparr>charge_success := True, charge_id := Some (JStr ''ch_1'')\<rparr>,
       sys_api = \<lparr>api_charges = [(''ch_1'', \<lparr>ch_token = ''tok'', ch_amount = 100, ch_currency = ''ZAR'', ch_refunded = False\<rparr>)]\<rparr>\<rparr>)))\<rparr>)) ''ch_1'' =
   refunded (sys_api (\<lparr>sys_client = (yoco_init ''sk'' ''tok'' 100 None)\<lparr>charge_success := True, charge_id := Some (JStr ''ch_1'')\<rparr>,
       sys_api = \<lparr>api_charges = [(''ch_1'', \<lparr>ch_token = ''tok'', ch_amount = 100, ch_currency = ''ZAR'', ch_refunded = False\<rparr>)]\<rparr>\<rparr>)) ''ch_1''"
proof (rule server_never_refunds)
  obtain e where e: "prepare_request refunds_url (auth_headers (sys_client (\<lparr>sys_client = (yoco_init ''sk'' ''tok'' 100 None)\<lparr>charge_success := True, charge_id := Some (JStr ''ch_1'')\<rparr>,
       sys_api = \<lparr>api_charges = [(''ch_1'', \<lparr>ch_token = ''tok'', ch_amount = 100, ch_currency = ''ZAR'', ch_refunded = False\<rparr>)]\<rparr>\<rparr>)))
                   (refund_body (JStr ''ch_1'')) = Inl e"
    using prepare_request_tuple unfolding refunds_url_def by blast
  have "sys_step (\<lparr>sys_client = (yoco_init ''sk'' ''tok'' 100 None)\<lparr>charge_success := True, charge_id := Some (JStr ''ch_1'')\<rparr>,
       sys_api = \<lparr>api_charges = [(''ch_1'', \<lparr>ch_token = ''tok'', ch_amount = 100, ch_currency = ''ZAR'', ch_refunded = False\<rparr>)]\<rparr>\<rparr>)
      ((\<lparr>sys_client = (yoco_init ''sk'' ''tok'' 100 None)\<lparr>charge_success := True, charge_id := Some (JStr ''ch_1'')\<rparr>,
       sys_api = \<lparr>api_charges = [(''ch_1'', \<lparr>ch_token = ''tok'', ch_amount = 100, ch_currency = ''ZAR'', ch_refunded = False\<rparr>)]\<rparr>\<rparr>)\<lparr>sys_client := snd (refund (requests_post (\<lambda>_. Inl (TransportError ''down'')))
                                    (sys_client (\<lparr>sys_client = (yoco_init ''sk'' ''tok'' 100 None)\<lparr>charge_success := True, charge_id := Some (JStr ''ch_1'')\<rparr>,
       sys_api = \<lparr>api_charges = [(''ch_1'', \<lparr>ch_token = ''tok'', ch_amount = 100, ch_currency = ''ZAR'', ch_refunded = False\<rparr>)]\<rparr>\<rparr>)))\<rparr>)"
    by (rule sys_refund_raised [where cid = "JStr ''ch_1''", OF _ e]) simp
  then show "sys_reach (\<lparr>sys_client = (yoco_init ''sk'' ''tok'' 100 None)\<lparr>charge_success := True, charge_id := Some (JStr ''ch_1'')\<rparr>,
       sys_api = \<lparr>api_charges = [(''ch_1'', \<lparr>ch_token = ''tok'', ch_amount = 100, ch_currency = ''ZAR'', ch_refunded = False\<rparr>)]\<rparr>\<rparr>)
      ((\<lparr>sys_client = (yoco_init ''sk'' ''tok'' 100 None)\<lparr>charge_success := True, charge_id := Some (JStr ''ch_1'')\<rparr>,
       sys_api = \<lparr>api_charges = [(''ch_1'', \<lparr>ch_token = ''tok'', ch_amount = 100, ch_currency = ''ZAR'', ch_refunded = False\<rparr>)]\<rparr>\<rparr>)\<lparr>sys_client := snd (refund (requests_post (\<lambda>_. Inl (TransportError ''down'')))
                                    (sys_client (\<lparr>sys_client = (yoco_init ''sk'' ''tok'' 100 None)\<lparr>charge_success := True, charge_id := Some (JStr ''ch_1'')\<rparr>,
       sys_api = \<lparr>api_charges = [(''ch_1'', \<lparr>ch_token = ''tok'', ch_amount = 100, ch_currency = ''ZAR'', ch_refunded = False\<rparr>)]\<rparr>\<rparr>)))\<rparr>)"
    by (rule sys_next [OF sys_refl])
qed

text \<open>C22: the charge the instance holds is the one on the server: in every state of the
  system reachable from a fresh instance, a stored \<open>charge_id\<close> is a string naming a
  charge on the server with exactly the instance's token, amount and currency, and that
  charge is not refunded.  The body travels as \<open>json.dumps\<close> text and is decoded by
  the server; the id travels back in the 201 answer.\<close>

theorem client_charge_on_server:
  assumes "sys_reach (sys_init sk tok amt cur s0) S"
  shows "charge_on_server S"
  using assms
proof (induction rule: sys_reach.induct)
  case sys_refl
  then show ?case by (simp add: charge_on_server_def sys_init_def yoco_init_def)
next
  case (sys_next S S')
  then show ?case
    using sys_step_charge_on_server [OF charge_response_unchanged refund_never_prepared] by blast
qed

theorem client_charge_on_server_witness:
  "charge_on_server
     \<lparr>sys_client = snd (charge (requests_post (\<lambda>_. Inr \<lparr>status_code = 201, resp_body = Some (JDict [(''id'', JStr ''ch_1'')])\<rparr>)) (sys_client (sys_init ''sk'' ''tok'' 100 None \<lparr>api_charges = []\<rparr>))),
      sys_api = \<lparr>api_charges = [(''ch_1'', \<lparr>ch_token = ''tok'', ch_amount = 100, ch_currency = ''ZAR'', ch_refunded = False\<rparr>)]\<rparr>\<rparr>"
proof (rule client_charge_on_server)
  let ?c = "sys_client (sys_init ''sk'' ''tok'' 100 None \<lparr>api_charges = []\<rparr>)"
  have h: "list_all valid_header (auth_headers ?c)"
    by (simp add: sys_init_def yoco_init_def auth_headers_def valid_header_eval)
  have "srv_step (sys_api (sys_init ''sk'' ''tok'' 100 None \<lparr>api_charges = []\<rparr>))
          \<lparr>req_url = charges_url, req_headers = json_headers (auth_headers ?c), req_body = dumps (charge_body ?c)\<rparr>
          (Inr \<lparr>status_code = 201, resp_body = Some (JDict [(''id'', JStr ''ch_1'')])\<rparr>) (\<lparr>api_charges = [(''ch_1'', \<lparr>ch_token = ''tok'', ch_amount = 100, ch_currency = ''ZAR'', ch_refunded = False\<rparr>)]\<rparr>)"
    using srv_charge_created [where b = "charge_body ?c" and i = "''ch_1''"
        and kvs = "[(''id'', JStr ''ch_1'')]" and s = "sys_api (sys_init ''sk'' ''tok'' 100 None \<lparr>api_charges = []\<rparr>)"]
    by (simp add: charges_url_def api_charges_url_def loads_dumps charge_body_decoded sys_init_def yoco_init_def)
  then have "sys_step (sys_init ''sk'' ''tok'' 100 None \<lparr>api_charges = []\<rparr>)
      \<lparr>sys_client = snd (charge (requests_post (\<lambda>_. Inr \<lparr>status_code = 201, resp_body = Some (JDict [(''id'', JStr ''ch_1'')])\<rparr>)) ?c), sys_api = \<lparr>api_charges = [(''ch_1'', \<lparr>ch_token = ''tok'', ch_amount = 100, ch_currency = ''ZAR'', ch_refunded = False\<rparr>)]\<rparr>\<rparr>"
    by (rule sys_charge_sent [OF prepare_charge_valid [OF h]])
  then show "sys_reach (sys_init ''sk'' ''tok'' 100 None \<lparr>api_charges = []\<rparr>)
      \<lparr>sys_client = snd (charge (requests_post (\<lambda>_. Inr \<lparr>status_code = 201, resp_body = Some (JDict [(''id'', JStr ''ch_1'')])\<rparr>)) ?c), sys_api = \<lparr>api_charges = [(''ch_1'', \<lparr>ch_token = ''tok'', ch_amount = 100, ch_currency = ''ZAR'', ch_refunded = False\<rparr>)]\<rparr>\<rparr>"
    by (rule sys_next [OF sys_refl])
qed

text \<open>C23: a charge whose answer is lost can never be recorded: from any state in which
  the server holds a charge of the instance's token and the instance holds no
  \<open>charge_id\<close>, no sequence of further calls gives the instance a \<open>charge_id\<close>.  The
  client neither retries nor looks the charge up, and the token is single-use, so the
  customer stays charged with nothing for the instance to refund.\<close>

theorem lost_charge_never_recorded:
  assumes "sys_reach S S'" and "charge_id (sys_client S) = None" and "token_spent S"
  shows "charge_id (sys_client S') = None"
proof -
  from assms have "charge_id (sys_client S') = None \<and> token_spent S'"
  proof (induction rule: sys_reach.induct)
    case sys_refl
    then show ?case by simp
  next
    case (sys_next S' S'')
    then show ?case
      using sys_step_token_spent [OF charge_response_unchanged refund_never_prepared] by blast
  qed
  then show ?thesis by simp
qed

theorem lost_charge_never_recorded_witness:
  "charge_id (sys_client \<lparr>sys_client = yoco_init ''sk'' ''tok'' 100 None,
     sys_api = \<lparr>api_charges = [(''ch_1'', \<lparr>ch_token = ''tok'', ch_amount = 100, ch_currency = ''ZAR'',
                                       ch_refunded = False\<rparr>)]\<rparr>\<rparr>) = None"
  by (rule lost_charge_never_recorded [OF sys_refl])
     (simp_all add: yoco_init_def token_spent_def)

end
