(* ===== verification/Spec2Isabelle.thy ===== *)
theory Spec2Isabelle
  imports Instances
begin

text \<open>
  \<^bold>\<open>Verification of yoco-python, a client for the Yoco online payments API.\<close>

  \<^emph>\<open>The program.\<close>  \<open>src/yoco_python/client.py\<close> defines one class,
  \<open>YocoClient\<close>.  Its constructor stores a secret key, a card token, an amount in cents
  and a currency (default \<open>ZAR\<close>), and clears the flags \<open>charge_success\<close> and
  \<open>refund_success\<close>.  \<open>charge()\<close> POSTs the token, amount and currency to the charges
  endpoint; on status 201 it sets \<open>charge_success\<close> and then stores the response's
  \<open>id\<close> as \<open>charge_id\<close>.  \<open>refund()\<close> reads \<open>charge_id\<close>, POSTs it to the refunds
  endpoint, and on status 200 sets \<open>refund_success\<close> and stores \<open>refund_id\<close>.  Both
  return the decoded response body and let every exception through.  The class talks to
  the outside world only through \<open>requests.post\<close> and \<open>Response.json()\<close>.

  \<^emph>\<open>The theories.\<close>
  \<^item> \<open>Prelude\<close>: the Python exceptions that reach the caller (\<open>py_error\<close>), the result
    type \<open>py_error + 'a\<close>, and \<open>str.startswith\<close>, \<open>str.lower\<close>, \<open>str.isspace\<close>
    (also the class \<open>\s\<close> of \<open>re\<close>), \<open>str.lstrip\<close> on the code points 0--255, with
    their lemmas (collection \<open>py_str_simps\<close>).
  \<^item> \<open>Json\<close>: decoded JSON documents (\<open>pyjson\<close>) and Python's \<open>v[k]\<close>
    (\<open>py_getitem\<close>): \<open>KeyError\<close> on a missing key, \<open>TypeError\<close> on a value that is
    not a dict, the last duplicate member winning, as in the \<open>dict\<close> that
    \<open>json.loads\<close> builds member by member.
  \<^item> \<open>JsonText\<close>: JSON text.  \<open>dumps\<close> is \<open>json.dumps\<close> as \<open>requests\<close> calls it
    (separators \<open>", "\<close> and \<open>": "\<close>, \<open>ensure_ascii\<close> escapes via
    \<open>esc_char\<close>, integers via \<open>int_str\<close>); \<open>loads\<close> is \<open>json.loads\<close>: the
    mutually recursive scanner \<open>parse_value\<close>/\<open>parse_elems\<close>/\<open>parse_members\<close>
    (with \<open>parse_chars\<close> for strings and \<open>parse_int\<close> for numbers) run with
    fuel, then only white space may follow.  Lemmas: decoding the encoding of a value
    followed by a delimiter gives the value and the delimiter (\<open>parse_value_dumps\<close>,
    by induction on the value with list inductions for arrays and objects); every
    successful scan consumes text (\<open>parse_shorter_all\<close>), hence the result does not
    depend on the fuel once it exceeds the length (\<open>parse_fuel_all\<close>).
  \<^item> \<open>Http\<close>: requests, responses, \<open>Response.json()\<close> (\<open>resp_json\<close>), the
    interface \<open>post_fn\<close> (the type of \<open>requests.post\<close>) and its implementation
    \<open>requests_post\<close> in front of an arbitrary \<open>transport\<close> (network and server):
    \<open>str()\<close> of the \<open>url\<close> argument (\<open>py_str\<close>, \<open>py_repr\<close>), \<open>prepare_url\<close>,
    header validation (\<open>valid_header\<close>), the JSON body text and its
    \<open>Content-Type\<close> header (\<open>dumps\<close>, \<open>json_headers\<close>), adapter lookup
    (\<open>has_adapter\<close>), together the request that would be sent
    (\<open>prepare_request\<close>), which alone reaches the transport.  Lemmas: an \<open>https://\<close> string reaches the transport
    unchanged; a tuple never does.
  \<^item> \<open>YocoClient\<close>: the instance as the record \<open>yoco_client\<close> (absent attributes
    as \<open>None\<close>), \<open>yoco_init\<close> (\<open>__init__\<close>), the request parts (\<open>charges_url\<close>,
    \<open>auth_headers\<close>, \<open>charge_body\<close>, \<open>refunds_url\<close>, \<open>refund_body\<close>) and the
    methods \<open>charge\<close> and \<open>refund\<close>, each a function of a \<open>post_fn\<close> and the
    instance that returns the call's result (or exception) with the instance as the call
    leaves it; each sends its request and hands the response to \<open>charge_response\<close>
    or \<open>refund_response\<close> (lines 44--48 and 65--69).  Lemmas: one per branch of each method, the shape of the state after a
    call (\<open>charge_cases\<close>, \<open>refund_cases\<close>), the constructor's attributes never
    change (\<open>config\<close>); then the properties of single calls.
  \<^item> \<open>Lifecycle\<close>: a call (\<open>exec_op\<close>), a caller that runs calls in order until the
    first exception (\<open>run\<close>), reachability under a set of \<open>requests.post\<close>
    implementations (\<open>runs\<close>, inductive) and the invariant \<open>client_inv\<close>.
    Properties of runs are proved by rule induction on \<open>runs\<close>.
  \<^item> \<open>YocoServer\<close>: the Yoco API as the client's environment, from spec section 6
    (no code of the repository): the server state (\<open>api_state\<close>, charges by id) and
    the nondeterministic step \<open>srv_step\<close>: a charge with a fresh single-use token is
    created under a fresh id and answered 201, an unrefunded charge is refunded and
    answered 200, any request may be declined, the network may fail before or after the
    server acts.
  \<^item> \<open>System\<close>: client, \<open>requests\<close> and server together (\<open>system\<close>,
    \<open>sys_step\<close>, \<open>sys_reach\<close>).  A step is one method call: the client's code of
    \<open>charge\<close> or \<open>refund\<close> runs through \<open>requests_post\<close>; when
    \<open>prepare_request\<close> succeeds the server takes one step on the prepared request and
    the method handles its answer (\<open>charge_response\<close>, \<open>refund_response\<close>).
  \<^item> \<open>Instances\<close>: many instances against one server, as a shop runs one instance
    per transaction (spec section 5).  A state is the list of instances and the server
    (\<open>instances\<close>); a step (\<open>inst_step\<close>) is one \<open>sys_step\<close> of one instance,
    chosen in any order, on the shared server, the others unchanged; \<open>inst_reach\<close> is
    reachability.  The invariant is per-instance \<open>charge_on_server\<close> with
    \<open>ids_distinct\<close>, proved by rule induction; \<open>shop\<close> and \<open>twin_shop\<close> are
    example shops the theorems are run on.
  \<^item> This theory: the properties that combine the client with the real \<open>requests\<close>
    library, and the result contract of spec section 9 (\<open>call_result\<close>,
    \<open>result_spec\<close>, \<open>observe\<close>) that \<open>charge\<close> and \<open>refund\<close> refine.

  \<^emph>\<open>What is proved.\<close>
  \<^item> The spec's testable properties: a 201 charge stores the id (C1); a rejected charge
    stores nothing (C2); a 200 refund stores the refund id for any implementation of
    \<open>requests.post\<close> (C3); \<open>refund()\<close> without a charge raises \<open>AttributeError\<close>
    before sending (C8); the charge body is exactly the constructor's values, the
    currency \<open>ZAR\<close> by default (C12, and C14 in every reachable state).
  \<^item> The defect at line 57: the refund \<open>url\<close> is a one-element tuple (C13).  So through
    \<open>requests\<close> every refund with a valid key raises \<open>InvalidSchema\<close> and nothing is
    sent (C4), no run ever records a refund (C5), and the documented charge-then-refund
    flow never completes (C6).
  \<^item> The error paths: \<open>KeyError\<close> after \<open>charge_success\<close> is already set (C9);
    decode and transport errors change nothing (C10, C11); a secret key that is not a
    valid header value is refused before sending (C20).
  \<^item> Invariants and refinement: \<open>client_inv\<close> holds in every reachable state (C7);
    success flags are never reset (C15); \<open>charge\<close> on a fresh instance and
    \<open>refund\<close> on a charged one implement the result contract of spec section 9 (C17,
    C18).
  \<^item> The request on the wire: through \<open>requests\<close>, with a valid secret-key header,
    \<open>charge()\<close> sends one request with the secret-key and \<open>Content-Type\<close> headers
    and the \<open>json.dumps\<close> text of its body, which the server's \<open>json.loads\<close> decodes
    to the client's dict (C16); and from every reachable instance a charge is still
    possible (C19, liveness).
  \<^item> End to end with the Yoco API: no charge on the server is ever refunded through
    this client, whatever the server and the network do (C21); the charge id the client
    keeps always names the server charge of exactly its token, amount and currency,
    created from the \<open>json.dumps\<close> text of its body (C22); a charge whose answer the
    network loses after the server created it spends the single-use token and can never
    afterwards be recorded, nor so refunded, by the instance (C23).
  \<^item> Interleaved instances sharing the server: in every interleaving each instance's
    \<open>charge_id\<close> names its own charge on the server (C24); no two instances hold the
    same \<open>charge_id\<close> (C25); two instances made for one single-use token never both
    record a charge (C26); any instance with a valid key and an unspent token can
    complete its charge whatever the others did (C27, liveness); from fresh instances
    with distinct tokens and valid keys some interleaving charges them all (C28); and
    the server never holds more charges than the instances have distinct tokens, so no
    card is charged twice (C29, bounds).

  \<^emph>\<open>Bounds and fuel.\<close>  The client has no loop and no recursion; \<open>run\<close> recurses
  on the list of calls.  The only fuel is that of the JSON decoder: \<open>loads s\<close> runs
  \<open>parse_value\<close> with fuel \<open>Suc (length s)\<close>.  Each nested array or object and
  each further element costs one unit and consumes at least one character, so this is
  enough: any larger fuel gives the same result (\<open>parse_value_fuel\<close>), and
  \<open>loads\<close> returns \<open>None\<close> only for text that \<open>json.loads\<close> rejects or that
  \<open>pyjson\<close> cannot hold.  Python integers are unbounded, so amounts and status codes
  are \<open>int\<close>.  Characters are the code points 0--255; on them \<open>str.isspace\<close> and
  \<open>\s\<close> include 0x85 and 0xa0, and \<open>str.lower\<close> the Latin-1 capitals, as in Python.

  \<^emph>\<open>Not modelled.\<close>  For the client's own theorems the network and the server are
  the parameter \<open>transport\<close>, about which nothing is assumed, nor of the status codes
  or bodies they return.  Only C21--C29 use the server of \<open>YocoServer\<close>, which
  holds no more than the spec's table; it does not model authentication, limits on
  amounts or currencies, or the API's error bodies.  Not modelled:
  \<^item> the decoding of the response text: the client receives the decoded document, or
    "not JSON"; \<open>loads\<close> is not put on this path because \<open>pyjson\<close> has no floats,
    and a server body with a float would then be wrongly undecodable;
  \<^item> floats, \<open>NaN\<close>, \<open>Infinity\<close>, code points above 255 and CPython's limit of
    4300 digits on integer conversion in \<open>json\<close>;
  \<^item> \<open>requests\<close>' URL normalisation (the identity on the two URLs of the client),
    its default session headers, proxies, redirects and timeouts;
  \<^item> characters beyond one byte in \<open>str.lower\<close>, \<open>str.isspace\<close> and \<open>repr\<close>.
\<close>

section \<open>The result contract of spec section 9\<close>

text \<open>
  The spec proposes that each call return an explicit result, such as
  \<open>ChargeResult { success, id, rawBody }\<close>, instead of mutating the instance.
  \<open>result_spec ok r\<close> is that result as a function of the response, for a call whose
  success status is \<open>ok\<close> (201 for a charge, 200 for a refund).  \<open>observe\<close> reads
  the same information off a call of the client: its return value, and the success flag
  and the stored id of the instance afterwards.
\<close>

record call_result =
  cr_success :: bool
  cr_id :: "pyjson option"
  cr_raw :: pyjson

definition result_spec :: "int \<Rightarrow> response \<Rightarrow> call_result py_result" where
  "result_spec ok r =
     (case resp_body r of
        None \<Rightarrow> Inl JSONDecodeError
      | Some j \<Rightarrow>
          (if status_code r = ok then
             (case py_getitem j ''id'' of
                Inl e \<Rightarrow> Inl e
              | Inr v \<Rightarrow> Inr \<lparr>cr_success = True, cr_id = Some v, cr_raw = j\<rparr>)
           else Inr \<lparr>cr_success = False, cr_id = None, cr_raw = j\<rparr>))"

definition observe ::
  "(yoco_client \<Rightarrow> bool) \<Rightarrow> (yoco_client \<Rightarrow> pyjson option) \<Rightarrow>
   pyjson py_result \<times> yoco_client \<Rightarrow> call_result py_result" where
  "observe flag ident rc =
     (case fst rc of
        Inl e \<Rightarrow> Inl e
      | Inr j \<Rightarrow> Inr \<lparr>cr_success = flag (snd rc), cr_id = ident (snd rc), cr_raw = j\<rparr>)"

section \<open>Properties of the client through \<open>requests\<close>\<close>

lemma prepare_url_refunds:
  "prepare_url refunds_url =
     Inr (CHR ''('' # CHR 0x27 # ''https://online.yoco.com/v1/refunds/'' @ CHR 0x27 # '',)'')"
  by (simp add: prepare_url_def refunds_url_def repr_str_def repr_char_def py_str_simps
      py_isspace_def lower_char_def Let_def)

lemma json_headers_auth:
  "json_headers (auth_headers c) = auth_headers c @ [(''Content-Type'', ''application/json'')]"
  by (simp add: json_headers_def auth_headers_def py_str_simps lower_char_def)

lemma charge_requests_call:
  assumes "list_all valid_header (auth_headers c)"
  shows "requests_post srv (PyStr charges_url) (auth_headers c) (charge_body c) =
         srv \<lparr>req_url = charges_url,
              req_headers = auth_headers c @ [(''Content-Type'', ''application/json'')],
              req_body = dumps (charge_body c)\<rparr>"
  by (simp add: requests_post_def prepare_charge_valid [OF assms] json_headers_auth)

text \<open>C4: through the real \<open>requests\<close> library, \<open>refund()\<close> on an instance with a
  \<open>charge_id\<close> and a valid secret-key header raises \<open>InvalidSchema\<close> for the string
  \<open>('https://online.yoco.com/v1/refunds/',)\<close> (the \<open>str()\<close> of the tuple), for every
  server: no refund request is ever sent, and the instance is unchanged.\<close>

theorem refund_through_requests_invalid_schema:
  assumes "charge_id c = Some cid" and "list_all valid_header (auth_headers c)"
  shows "refund (requests_post srv) c =
           (Inl (InvalidSchema (CHR ''('' # CHR 0x27 # ''https://online.yoco.com/v1/refunds/'' @
                                CHR 0x27 # '',)'')), c)"
proof -
  have "\<not> has_adapter (CHR ''('' # CHR 0x27 # ''https://online.yoco.com/v1/refunds/'' @
                        CHR 0x27 # '',)'')"
    by (rule paren_no_adapter)
  then have "requests_post srv refunds_url (auth_headers c) (refund_body cid) =
             Inl (InvalidSchema (CHR ''('' # CHR 0x27 # ''https://online.yoco.com/v1/refunds/'' @
                                 CHR 0x27 # '',)''))"
    using assms(2) by (simp only: requests_post_def prepare_request_def prepare_url_refunds find_not_list_all
        sum.case option.case if_False)
  with assms(1) show ?thesis by (rule refund_transport_error)
qed

theorem refund_through_requests_invalid_schema_witness:
  "refund (requests_post (\<lambda>_. Inr \<lparr>status_code = 200, resp_body = Some (JDict [(''id'', JStr ''rf'')])\<rparr>))
     ((yoco_init ''sk_live_1'' ''tok'' 100 None)\<lparr>charge_success := True, charge_id := Some (JStr ''ch'')\<rparr>) =
   (Inl (InvalidSchema (CHR ''('' # CHR 0x27 # ''https://online.yoco.com/v1/refunds/'' @
                        CHR 0x27 # '',)'')),
    (yoco_init ''sk_live_1'' ''tok'' 100 None)\<lparr>charge_success := True, charge_id := Some (JStr ''ch'')\<rparr>)"
  by (rule refund_through_requests_invalid_schema [where cid = "JStr ''ch''"])
    (simp_all add: yoco_init_def auth_headers_def valid_header_eval)

text \<open>C6: the documented flow (construct, \<open>charge()\<close>, then \<open>refund()\<close>) never
  completes through the real \<open>requests\<close> library: whatever the server answers, one of
  the two calls raises.\<close>

theorem charge_then_refund_never_completes:
  "\<exists>e. fst (run (requests_post srv) [Charge, Refund] (yoco_init sk tok amt cur)) = Inl e"
proof -
  obtain e c' where "refund (requests_post srv) (snd (charge (requests_post srv) (yoco_init sk tok amt cur)))
                       = (Inl e, c')"
    using refund_requests_raises by blast
  then show ?thesis
    by (cases "charge (requests_post srv) (yoco_init sk tok amt cur)")
      (auto simp: exec_op_def split: sum.split)
qed

text \<open>C16: through the real \<open>requests\<close> library, with a valid secret-key header,
  \<open>charge()\<close> hands the server exactly one request: \<open>POST\<close> to
  \<open>https://online.yoco.com/v1/charges/\<close>, with the secret-key header followed by
  \<open>Content-Type: application/json\<close>, and with the \<open>json.dumps\<close> text of the
  charge body, which \<open>json.loads\<close> on the server decodes back to exactly the
  client's \<open>{token, amountInCents, currency}\<close> dict.\<close>

theorem charge_through_requests:
  assumes "list_all valid_header (auth_headers c)"
  shows "charge (requests_post srv) c =
           charge (\<lambda>_ _ _. srv \<lparr>req_url = ''https://online.yoco.com/v1/charges/'',
                                req_headers = [(''X-Auth-Secret-Key'', secret_key c),
                                               (''Content-Type'', ''application/json'')],
                                req_body = dumps (charge_body c)\<rparr>) c \<and>
         loads (dumps (charge_body c)) =
           Some (JDict [(''token'', JStr (charge_token c)),
                        (''amountInCents'', JInt (amount_in_cents c)),
                        (''currency'', JStr (currency c))])"
proof
  show "charge (requests_post srv) c = charge (\<lambda>_ _ _. srv \<lparr>req_url = ''https://online.yoco.com/v1/charges/'',
          req_headers = [(''X-Auth-Secret-Key'', secret_key c), (''Content-Type'', ''application/json'')],
          req_body = dumps (charge_body c)\<rparr>) c"
    using charge_requests_call [OF assms, of srv]
    by (simp add: charge_def charges_url_def auth_headers_def)
  have "loads (dumps (charge_body c)) = Some (charge_body c)"
    using parse_value_dumps_Nil by (rule loads_intro) simp_all
  then show "loads (dumps (charge_body c)) =
           Some (JDict [(''token'', JStr (charge_token c)), (''amountInCents'', JInt (amount_in_cents c)),
                        (''currency'', JStr (currency c))])"
    by (simp add: charge_body_def)
qed

theorem charge_through_requests_witness:
  "charge (requests_post (\<lambda>r. Inr \<lparr>status_code = 201, resp_body = Some (JDict [(''id'', JStr (req_url r))])\<rparr>))
          (yoco_init ''sk'' ''tok'' 100 None) =
   charge (\<lambda>_ _ _. Inr \<lparr>status_code = 201,
                         resp_body = Some (JDict [(''id'', JStr ''https://online.yoco.com/v1/charges/'')])\<rparr>)
          (yoco_init ''sk'' ''tok'' 100 None) \<and>
   loads (dumps (charge_body (yoco_init ''sk'' ''tok'' 100 None))) =
     Some (JDict [(''token'', JStr ''tok''), (''amountInCents'', JInt 100), (''currency'', JStr ''ZAR'')])"
proof -
  have "list_all valid_header (auth_headers (yoco_init ''sk'' ''tok'' 100 None))"
    by (simp add: yoco_init_def auth_headers_def valid_header_eval)
  from charge_through_requests [OF this] show ?thesis by (simp add: yoco_init_def)
qed

text \<open>C17: \<open>charge()\<close> on a fresh instance implements the explicit result contract of
  the spec (section 9): its return value, with \<open>charge_success\<close> and \<open>charge_id\<close>
  afterwards, is the result that \<open>result_spec 201\<close> gives for the answer to its
  request, every exception of the call included.\<close>

theorem charge_refines_result_contract:
  assumes "\<not> charge_success c" and "charge_id c = None"
  shows "observe charge_success charge_id (charge post c) =
           (case charge_call post c of Inl e \<Rightarrow> Inl e | Inr r \<Rightarrow> result_spec 201 r)"
  using assms
  by (auto simp: observe_def result_spec_def client_unfold Let_def split: sum.split option.split)

theorem charge_refines_result_contract_witness:
  "observe charge_success charge_id
     (charge (\<lambda>_ _ _. Inr \<lparr>status_code = 201, resp_body = Some (JDict [(''id'', JStr ''ch_123'')])\<rparr>)
             (yoco_init ''sk'' ''tok'' 100 None)) =
   Inr \<lparr>cr_success = True, cr_id = Some (JStr ''ch_123''), cr_raw = JDict [(''id'', JStr ''ch_123'')]\<rparr>"
  using charge_refines_result_contract [of "yoco_init ''sk'' ''tok'' 100 None"
      "\<lambda>_ _ _. Inr \<lparr>status_code = 201, resp_body = Some (JDict [(''id'', JStr ''ch_123'')])\<rparr>"]
  by (simp add: yoco_init_def result_spec_def)

text \<open>C18: \<open>refund()\<close> on an instance with a \<open>charge_id\<close> and no refund yet
  implements the same contract with success status 200: its return value, with
  \<open>refund_success\<close> and \<open>refund_id\<close> afterwards, is the result that
  \<open>result_spec 200\<close> gives for the answer to its request, for every implementation of
  \<open>requests.post\<close>.\<close>

theorem refund_refines_result_contract:
  assumes "charge_id c = Some cid" and "\<not> refund_success c" and "refund_id c = None"
  shows "observe refund_success refund_id (refund post c) =
           (case refund_call post c cid of Inl e \<Rightarrow> Inl e | Inr r \<Rightarrow> result_spec 200 r)"
  using assms
  by (auto simp: observe_def result_spec_def client_unfold Let_def split: sum.split option.split)

theorem refund_refines_result_contract_witness:
  "observe refund_success refund_id
     (refund (\<lambda>_ _ _. Inr \<lparr>status_code = 404, resp_body = Some (JDict [(''errorCode'', JStr ''not_found'')])\<rparr>)
             ((yoco_init ''sk'' ''tok'' 100 None)\<lparr>charge_success := True, charge_id := Some (JStr ''ch'')\<rparr>)) =
   Inr \<lparr>cr_success = False, cr_id = None, cr_raw = JDict [(''errorCode'', JStr ''not_found'')]\<rparr>"
  using refund_refines_result_contract
      [of "(yoco_init ''sk'' ''tok'' 100 None)\<lparr>charge_success := True, charge_id := Some (JStr ''ch'')\<rparr>"
          "JStr ''ch''"
          "\<lambda>_ _ _. Inr \<lparr>status_code = 404, resp_body = Some (JDict [(''errorCode'', JStr ''not_found'')])\<rparr>"]
  by (simp add: yoco_init_def result_spec_def)

text \<open>C20: a secret key that \<open>requests\<close> rejects as a header value (leading white
  space, or a carriage return or line feed other than one final line feed) makes
  \<open>charge()\<close> raise \<open>InvalidHeader\<close> before anything is sent, and the instance is
  unchanged.\<close>

theorem charge_invalid_secret_header:
  assumes "\<not> valid_header_value (secret_key c)"
  shows "charge (requests_post srv) c = (Inl (InvalidHeader ''X-Auth-Secret-Key''), c)"
proof -
  have "prepare_url (PyStr charges_url) = Inr charges_url"
    by (rule prepare_url_https) (simp add: charges_url_def)
  moreover have "find (\<lambda>h. \<not> valid_header h) (auth_headers c) =
                 Some (''X-Auth-Secret-Key'', secret_key c)"
    using assms by (simp add: auth_headers_def valid_header_def)
  ultimately show ?thesis
    by (simp add: charge_def requests_post_def prepare_request_def)
qed

theorem charge_invalid_secret_header_witness:
  "charge (requests_post (\<lambda>_. Inr \<lparr>status_code = 201, resp_body = Some (JDict [(''id'', JInt 1)])\<rparr>))
          (yoco_init '' sk_live'' ''tok'' 100 None) =
   (Inl (InvalidHeader ''X-Auth-Secret-Key''), yoco_init '' sk_live'' ''tok'' 100 None)"
  by (rule charge_invalid_secret_header)
    (simp add: yoco_init_def valid_header_value_def drop_final_lf_def py_isspace_def)



end
